theory Spec2Isabelle
  imports Main "HOL-Library.Product_Lexorder"
begin

section \<open>Data model (internal/entity/models.go and the migrations)\<close>

text \<open>
  Identifiers are UUID strings in the source. They are modelled as natural numbers, and
  \<^verbatim>\<open>uuid.New()\<close> as a counter held in the store. Timestamps (\<^verbatim>\<open>NOW()\<close>) are read
  from a clock held in the store. Go strings are byte sequences: a \<^typ>\<open>string\<close> here is
  the list of the UTF-8 bytes of the Go string. An error is the text of the Go error;
  \<^verbatim>\<open>fmt.Errorf("msg: %w", err)\<close> prepends \<open>msg: \<close> to it.
\<close>

type_synonym uuid = nat
type_synonym timestamp = nat
type_synonym error = string

datatype SessionStatus =
    SessionStatusNew
  | SessionStatusAskUserGoal
  | SessionStatusSelectOrCreateProject
  | SessionStatusAskUserContext
  | SessionStatusChooseMode
  | SessionStatusInterviewInfo
  | SessionStatusDraftInfo
  | SessionStatusGeneratingQuestions
  | SessionStatusWaitingForAnswers
  | SessionStatusDraftCollecting
  | SessionStatusValidating
  | SessionStatusGeneratingRequirements
  | SessionStatusDone
  | SessionStatusError
  | SessionStatusCanceled
  | SessionStatusAskProjectName
  | SessionStatusAskProjectDescription

datatype SessionType = SessionTypeDraft | SessionTypeInterview

datatype QuestionStatus = AnswerStatusUnanswered | AnswerStatusSkiped | AnswerStatusAnswered

record Session =
  s_ID :: uuid
  s_ProjectID :: "uuid option"
  s_Status :: SessionStatus
  s_Type :: "SessionType option"
  s_UserGoal :: "string option"
  s_ProjectContext :: "string option"
  s_CurrentIteration :: int
  s_Result :: "string option"
  s_Error :: "string option"
  s_CreatedAt :: timestamp
  s_UpdatedAt :: timestamp

record Iteration =
  it_ID :: uuid
  it_SessionID :: uuid
  it_IterationNumber :: int
  it_Title :: string
  it_CreatedAt :: timestamp

record Question =
  q_ID :: uuid
  q_IterationID :: uuid
  q_QuestionNumber :: int
  q_Status :: QuestionStatus
  q_Question :: string
  q_Explanation :: string
  q_Answer :: "string option"
  q_CreatedAt :: timestamp
  q_AnsweredAt :: "timestamp option"

record Project =
  p_ID :: uuid
  p_Title :: string
  p_Description :: string

record SessionMessage =
  m_SessionID :: uuid
  m_MessageText :: string
  m_CreatedAt :: timestamp

text \<open>
  The store: one field per table. \<open>sessions\<close> and \<open>projects\<close> are keyed by their primary
  key; \<open>session_iterations\<close>, \<open>iteration_questions\<close> and \<open>session_messages\<close> are the
  rows in insertion order. \<open>llm_calls\<close> counts the requests sent to the LLM connector.
\<close>

record DB =
  sessions :: "uuid \<rightharpoonup> Session"
  projects :: "uuid \<rightharpoonup> Project"
  session_iterations :: "Iteration list"
  iteration_questions :: "Question list"
  session_messages :: "SessionMessage list"
  uuid_next :: uuid
  clock :: timestamp
  llm_calls :: nat

definition wrapErr :: "string \<Rightarrow> error \<Rightarrow> error" where
  "wrapErr msg e = msg @ '': '' @ e"

definition ErrNoRows :: error where
  "ErrNoRows = ''no rows in result set''"

text \<open>\<^verbatim>\<open>int32(x)\<close>: the conversion the repositories apply before writing an INT column.\<close>

definition int32 :: "int \<Rightarrow> int" where
  "int32 x = signed_take_bit 31 x"

definition nilErr :: error where
  "nilErr = ''%!w(<nil>)''"

text \<open>
  Every repository and use-case function takes the store and returns the store it leaves
  behind together with its result or its error: a Go function that returns an error has
  still performed the writes it made before.
\<close>

type_synonym 'a io = "DB \<Rightarrow> DB \<times> (error + 'a)"

definition ok :: "'a \<Rightarrow> 'a io" where
  "ok x db = (db, Inr x)"

definition fail :: "error \<Rightarrow> 'a io" where
  "fail e db = (db, Inl e)"

text \<open>
  \<^verbatim>\<open>x, err := f(); if err != nil { return nil, fmt.Errorf("msg: %w", err) }; rest\<close>
\<close>

definition bindErr :: "DB \<times> (error + 'a) \<Rightarrow> string \<Rightarrow> ('a \<Rightarrow> 'b io) \<Rightarrow> DB \<times> (error + 'b)" where
  "bindErr r msg rest =
     (case r of
        (db, Inl e) \<Rightarrow> (db, Inl (wrapErr msg e))
      | (db, Inr x) \<Rightarrow> rest x db)"

definition uuid_New :: "DB \<Rightarrow> uuid \<times> DB" where
  "uuid_New db = (uuid_next db, db\<lparr>uuid_next := Suc (uuid_next db)\<rparr>)"

section \<open>Session repository (session_postgres.go and its queries)\<close>

text \<open>
  The storage is taken to be reliable: a query fails only where the schema makes it fail
  (no row for a \<^verbatim>\<open>:one\<close> query, a violated key or foreign key, an INT out of range).
\<close>

text \<open>\<^verbatim>\<open>SELECT * FROM sessions WHERE id = $1\<close>\<close>

definition SessionPostgres_GetSessionByID :: "uuid \<Rightarrow> Session io" where
  "SessionPostgres_GetSessionByID sid db =
     (case sessions db sid of
        None \<Rightarrow> (db, Inl (wrapErr ''get session'' ErrNoRows))
      | Some s \<Rightarrow> (db, Inr s))"

text \<open>
  \<^verbatim>\<open>UPDATE sessions SET <columns>, updated_at = NOW() WHERE id = $1 RETURNING *\<close>,
  a \<^verbatim>\<open>:one\<close> query: no row returned is the error \<^verbatim>\<open>pgx.ErrNoRows\<close>.
\<close>

definition update_session_row :: "string \<Rightarrow> uuid \<Rightarrow> (Session \<Rightarrow> Session) \<Rightarrow> Session io" where
  "update_session_row msg sid f db =
     (case sessions db sid of
        None \<Rightarrow> (db, Inl (wrapErr msg ErrNoRows))
      | Some s \<Rightarrow>
          (let s' = (f s)\<lparr>s_UpdatedAt := clock db\<rparr>
           in (db\<lparr>sessions := (sessions db)(sid \<mapsto> s')\<rparr>, Inr s')))"

text \<open>
  \<^verbatim>\<open>UPDATE sessions SET status = $2, updated_at = NOW() WHERE id = $1 RETURNING *\<close>
\<close>

definition SessionPostgres_UpdateSessionStatus :: "uuid \<Rightarrow> SessionStatus \<Rightarrow> Session io" where
  "SessionPostgres_UpdateSessionStatus sid st =
     update_session_row ''update session status'' sid (\<lambda>s. s\<lparr>s_Status := st\<rparr>)"

text \<open>
  \<^verbatim>\<open>INSERT INTO sessions (id, status) VALUES ($1, $2) RETURNING *\<close>; the column
  \<open>current_iteration\<close> defaults to 1, the timestamps to \<^verbatim>\<open>NOW()\<close>.
\<close>

definition SessionPostgres_CreateSession :: "uuid \<Rightarrow> SessionStatus \<Rightarrow> Session io" where
  "SessionPostgres_CreateSession sid st db =
     (if sid \<in> dom (sessions db) then (db, Inl (wrapErr ''create session'' ''duplicate key''))
      else
        (let s = \<lparr>s_ID = sid, s_ProjectID = None, s_Status = st, s_Type = None,
                  s_UserGoal = None, s_ProjectContext = None, s_CurrentIteration = 1,
                  s_Result = None, s_Error = None,
                  s_CreatedAt = clock db, s_UpdatedAt = clock db\<rparr>
         in (db\<lparr>sessions := (sessions db)(sid \<mapsto> s)\<rparr>, Inr s)))"

definition SessionPostgres_CreateFilledSession ::
  "uuid \<Rightarrow> uuid option \<Rightarrow> SessionStatus \<Rightarrow> SessionType option \<Rightarrow> string option \<Rightarrow> string option
     \<Rightarrow> Session io" where
  "SessionPostgres_CreateFilledSession sid pid st ty goal pctx db =
     (if sid \<in> dom (sessions db)
      then (db, Inl (wrapErr ''create filled session'' ''duplicate key''))
      else
        (let s = \<lparr>s_ID = sid, s_ProjectID = pid, s_Status = st, s_Type = ty,
                  s_UserGoal = goal, s_ProjectContext = pctx, s_CurrentIteration = 1,
                  s_Result = None, s_Error = None,
                  s_CreatedAt = clock db, s_UpdatedAt = clock db\<rparr>
         in (db\<lparr>sessions := (sessions db)(sid \<mapsto> s)\<rparr>, Inr s)))"

text \<open>
  \<^verbatim>\<open>SET current_iteration = current_iteration + 1\<close>: PostgreSQL raises
  \<open>integer out of range\<close> where the sum leaves the INT range.
\<close>

definition SessionPostgres_UpdateSessionIteration :: "uuid \<Rightarrow> Session io" where
  "SessionPostgres_UpdateSessionIteration sid db =
     (case sessions db sid of
        None \<Rightarrow> (db, Inl (wrapErr ''update session status'' ErrNoRows))
      | Some s \<Rightarrow>
          if s_CurrentIteration s + 1 > 2147483647
          then (db, Inl (wrapErr ''update session status'' ''integer out of range''))
          else update_session_row ''update session status'' sid
                 (\<lambda>s. s\<lparr>s_CurrentIteration := s_CurrentIteration s + 1\<rparr>) db)"

text \<open>\<^verbatim>\<open>SET project_context = $1, project_id = NULL\<close>\<close>

definition SessionPostgres_UpdateSessionProjectContext :: "uuid \<Rightarrow> string \<Rightarrow> Session io" where
  "SessionPostgres_UpdateSessionProjectContext sid projectCtx =
     update_session_row ''update project contex'' sid
       (\<lambda>s. s\<lparr>s_ProjectContext := Some projectCtx, s_ProjectID := None\<rparr>)"

text \<open>
  \<^verbatim>\<open>SET project_context = $1, project_id = $3\<close>, the context written as NULL when it
  is the empty string (\<^verbatim>\<open>Valid: projectCtx != ""\<close>).
\<close>

definition SessionPostgres_UpdateSessionRAGProjectContext ::
  "uuid \<Rightarrow> uuid \<Rightarrow> string \<Rightarrow> Session io" where
  "SessionPostgres_UpdateSessionRAGProjectContext sid projectID projectCtx =
     update_session_row ''update rag project context'' sid
       (\<lambda>s. s\<lparr>s_ProjectContext := (if projectCtx \<noteq> [] then Some projectCtx else None),
              s_ProjectID := Some projectID\<rparr>)"

definition SessionPostgres_UpdateSessionUserGoal :: "uuid \<Rightarrow> string \<Rightarrow> Session io" where
  "SessionPostgres_UpdateSessionUserGoal sid userGoal =
     update_session_row ''update user goal'' sid (\<lambda>s. s\<lparr>s_UserGoal := Some userGoal\<rparr>)"

definition SessionPostgres_UpdateSessionType :: "uuid \<Rightarrow> SessionType \<Rightarrow> Session io" where
  "SessionPostgres_UpdateSessionType sid sessionType =
     update_session_row ''update session type'' sid (\<lambda>s. s\<lparr>s_Type := Some sessionType\<rparr>)"

text \<open>\<^verbatim>\<open>SET status = $2, result = $3, error = $4\<close>\<close>

definition SessionPostgres_UpdateSessionResult ::
  "uuid \<Rightarrow> SessionStatus \<Rightarrow> string option \<Rightarrow> string option \<Rightarrow> Session io" where
  "SessionPostgres_UpdateSessionResult sid st res errRes =
     update_session_row ''update session status'' sid
       (\<lambda>s. s\<lparr>s_Status := st, s_Result := res, s_Error := errRes\<rparr>)"

section \<open>Project, iteration, question and message repositories\<close>

definition ErrProjectNotFound :: error where
  "ErrProjectNotFound = ''project not found''"

definition ProjectPostgres_Get :: "uuid \<Rightarrow> Project io" where
  "ProjectPostgres_Get pid db =
     (case projects db pid of
        None \<Rightarrow> (db, Inl ErrProjectNotFound)
      | Some p \<Rightarrow> (db, Inr p))"

text \<open>
  \<^verbatim>\<open>INSERT INTO session_iterations (id, session_id, iteration_number, title)\<close>. The
  table has \<^verbatim>\<open>session_id REFERENCES sessions(id)\<close> and
  \<^verbatim>\<open>CONSTRAINT unique_session_iteration UNIQUE (session_id, iteration_number)\<close>.
  Identifiers come from \<^verbatim>\<open>uuid.New()\<close> and are taken to be fresh.
\<close>

definition IterationPostgres_CreateIteration :: "Iteration \<Rightarrow> Iteration io" where
  "IterationPostgres_CreateIteration iteration db =
     (let n = int32 (it_IterationNumber iteration) in
      if sessions db (it_SessionID iteration) = None
      then (db, Inl (wrapErr ''create iteration'' ''foreign key violation''))
      else if \<exists>r \<in> set (session_iterations db).
                it_SessionID r = it_SessionID iteration \<and> it_IterationNumber r = n
      then (db, Inl (wrapErr ''create iteration'' ''unique_session_iteration''))
      else
        (let row = iteration\<lparr>it_IterationNumber := n, it_CreatedAt := clock db\<rparr>
         in (db\<lparr>session_iterations := session_iterations db @ [row]\<rparr>, Inr row)))"

text \<open>\<^verbatim>\<open>SELECT * FROM session_iterations WHERE id = $1\<close>\<close>

definition IterationPostgres_GetIterationByID :: "uuid \<Rightarrow> Iteration io" where
  "IterationPostgres_GetIterationByID iid db =
     (case find (\<lambda>r. it_ID r = iid) (session_iterations db) of
        None \<Rightarrow> (db, Inl (wrapErr ''get iteration'' ErrNoRows))
      | Some r \<Rightarrow> (db, Inr r))"

text \<open>\<^verbatim>\<open>WHERE session_id = $1 ORDER BY iteration_number ASC\<close>\<close>

definition IterationPostgres_ListIterationsBySession :: "uuid \<Rightarrow> Iteration list io" where
  "IterationPostgres_ListIterationsBySession sid db =
     (db, Inr (sort_key it_IterationNumber
                 (filter (\<lambda>r. it_SessionID r = sid) (session_iterations db))))"

text \<open>
  \<^verbatim>\<open>JOIN sessions ss ON ss.id = si.session_id WHERE si.session_id = $1 AND
  si.iteration_number = ss.current_iteration + k LIMIT 1\<close>, with \<open>k = 1\<close> for
  \<^verbatim>\<open>GetNextIteration\<close> and \<open>k = 0\<close> for \<^verbatim>\<open>GetCurrentIteration\<close>. Both wrap the
  error with the same text.
\<close>

definition iteration_at :: "int \<Rightarrow> uuid \<Rightarrow> Iteration io" where
  "iteration_at k sid db =
     (case sessions db sid of
        None \<Rightarrow> (db, Inl (wrapErr ''get next unanswered iteration'' ErrNoRows))
      | Some ss \<Rightarrow>
          (case find (\<lambda>r. it_SessionID r = sid \<and> it_IterationNumber r = s_CurrentIteration ss + k)
                  (session_iterations db) of
             None \<Rightarrow> (db, Inl (wrapErr ''get next unanswered iteration'' ErrNoRows))
           | Some r \<Rightarrow> (db, Inr r)))"

definition IterationPostgres_GetNextIteration :: "uuid \<Rightarrow> Iteration io" where
  "IterationPostgres_GetNextIteration = iteration_at 1"

definition IterationPostgres_GetCurrentIteration :: "uuid \<Rightarrow> Iteration io" where
  "IterationPostgres_GetCurrentIteration = iteration_at 0"

text \<open>
  \<^verbatim>\<open>SELECT COALESCE(MAX(iteration_number), 0) FROM session_iterations WHERE session_id = $1\<close>
\<close>

definition storedMaxIterationNumber :: "DB \<Rightarrow> uuid \<Rightarrow> int" where
  "storedMaxIterationNumber db sid =
     (let ns = map it_IterationNumber (filter (\<lambda>r. it_SessionID r = sid) (session_iterations db))
      in if ns = [] then 0 else Max (set ns))"

definition IterationPostgres_GetMaxIterationNumber :: "uuid \<Rightarrow> int io" where
  "IterationPostgres_GetMaxIterationNumber sid db = (db, Inr (storedMaxIterationNumber db sid))"

text \<open>
  \<^verbatim>\<open>INSERT INTO iteration_questions (id, iteration_id, question_number, status, question,
  explanation)\<close>; \<open>answer\<close> and \<open>answered_at\<close> stay NULL.
\<close>

definition QuestionPostgres_CreateQuestion :: "Question \<Rightarrow> Question io" where
  "QuestionPostgres_CreateQuestion question db =
     (let row = question\<lparr>q_QuestionNumber := int32 (q_QuestionNumber question),
                          q_Answer := None, q_AnsweredAt := None, q_CreatedAt := clock db\<rparr>
      in (db\<lparr>iteration_questions := iteration_questions db @ [row]\<rparr>, Inr row))"

definition ErrQuestionNotFound :: error where
  "ErrQuestionNotFound = ''question not found''"

definition QuestionPostgres_GetQuestionByID :: "uuid \<Rightarrow> Question io" where
  "QuestionPostgres_GetQuestionByID qid db =
     (case find (\<lambda>q. q_ID q = qid) (iteration_questions db) of
        None \<Rightarrow> (db, Inl ErrQuestionNotFound)
      | Some q \<Rightarrow> (db, Inr q))"

text \<open>\<^verbatim>\<open>WHERE iteration_id = $1 ORDER BY question_number ASC\<close>\<close>

definition QuestionPostgres_ListQuestionsByIteration :: "uuid \<Rightarrow> Question list io" where
  "QuestionPostgres_ListQuestionsByIteration iid db =
     (db, Inr (sort_key q_QuestionNumber
                 (filter (\<lambda>q. q_IterationID q = iid) (iteration_questions db))))"

text \<open>
  \<^verbatim>\<open>FROM iteration_questions iq JOIN session_iterations si ON si.id = iq.iteration_id
  WHERE si.session_id = $1 ORDER BY si.iteration_number ASC, iq.question_number ASC\<close>
\<close>

definition session_questions :: "DB \<Rightarrow> uuid \<Rightarrow> Question list" where
  "session_questions db sid =
     map snd
       (sort_key (\<lambda>(si, iq). (it_IterationNumber si, q_QuestionNumber iq))
          (concat (map (\<lambda>si. map (\<lambda>iq. (si, iq))
                                (filter (\<lambda>iq. q_IterationID iq = it_ID si) (iteration_questions db)))
                       (filter (\<lambda>si. it_SessionID si = sid) (session_iterations db)))))"

definition QuestionPostgres_ListQuestionsBySession :: "uuid \<Rightarrow> Question list io" where
  "QuestionPostgres_ListQuestionsBySession sid db = (db, Inr (session_questions db sid))"

text \<open>The same with \<^verbatim>\<open>AND (iq.status = 'UNANSWERED' OR iq.status = 'SKIPED')\<close>.\<close>

definition QuestionPostgres_GetUnansweredQuestions :: "uuid \<Rightarrow> Question list io" where
  "QuestionPostgres_GetUnansweredQuestions sid db =
     (db, Inr (filter (\<lambda>iq. q_Status iq = AnswerStatusUnanswered \<or> q_Status iq = AnswerStatusSkiped)
                 (session_questions db sid)))"

text \<open>
  \<^verbatim>\<open>UPDATE iteration_questions SET answer = $2, status = 'ANSWERED', answered_at = NOW()
  WHERE id = $1\<close>, an \<^verbatim>\<open>:exec\<close> query: updating no row is no error.
\<close>

definition QuestionPostgres_UpdateQuestionAnswer :: "uuid \<Rightarrow> string \<Rightarrow> unit io" where
  "QuestionPostgres_UpdateQuestionAnswer qid answer db =
     (db\<lparr>iteration_questions :=
           map (\<lambda>q. if q_ID q = qid
                    then q\<lparr>q_Answer := Some answer, q_Status := AnswerStatusAnswered,
                           q_AnsweredAt := Some (clock db)\<rparr>
                    else q)
               (iteration_questions db)\<rparr>, Inr ())"

text \<open>
  \<^verbatim>\<open>UPDATE iteration_questions SET status = 'SKIPED' WHERE id = $1 AND status = 'UNANSWERED'\<close>
\<close>

definition QuestionPostgres_SkipQuestion :: "uuid \<Rightarrow> unit io" where
  "QuestionPostgres_SkipQuestion qid db =
     (db\<lparr>iteration_questions :=
           map (\<lambda>q. if q_ID q = qid \<and> q_Status q = AnswerStatusUnanswered
                    then q\<lparr>q_Status := AnswerStatusSkiped\<rparr>
                    else q)
               (iteration_questions db)\<rparr>, Inr ())"

text \<open>
  \<^verbatim>\<open>INSERT INTO session_messages (session_id, message_text, created_at)\<close>, with
  \<^verbatim>\<open>session_id REFERENCES sessions(id)\<close>.
\<close>

definition SessionMessagePostgres_CreateMessage :: "uuid \<Rightarrow> string \<Rightarrow> SessionMessage io" where
  "SessionMessagePostgres_CreateMessage sid messageText db =
     (if sessions db sid = None
      then (db, Inl (wrapErr ''create session message'' ''foreign key violation''))
      else
        (let row = \<lparr>m_SessionID = sid, m_MessageText = messageText, m_CreatedAt = clock db\<rparr>
         in (db\<lparr>session_messages := session_messages db @ [row]\<rparr>, Inr row)))"

text \<open>\<^verbatim>\<open>WHERE session_id = $1 ORDER BY created_at ASC\<close>\<close>

definition SessionMessagePostgres_GetSessionMessages :: "uuid \<Rightarrow> SessionMessage list io" where
  "SessionMessagePostgres_GetSessionMessages sid db =
     (db, Inr (sort_key m_CreatedAt (filter (\<lambda>m. m_SessionID m = sid) (session_messages db))))"

section \<open>Session use case: helpers (package session)\<close>

record LLMQuestion =
  lq_Text :: string
  lq_Explanation :: string

record QuestionsBlock =
  qb_Title :: string
  qb_Questions :: "LLMQuestion list"

record QuestionWithAnswer =
  qa_Question :: string
  qa_Answer :: string

record QuestionDTO =
  dto_ID :: uuid
  dto_QuestionNumber :: int
  dto_Status :: QuestionStatus
  dto_Question :: string
  dto_Explanation :: string

record IterationWithQuestions =
  iwq_SessionID :: uuid
  iwq_IterationID :: uuid
  iwq_IterationNumber :: int
  iwq_Title :: string
  iwq_Questions :: "QuestionDTO list"

definition questionModelToQuestionDTO :: "Question \<Rightarrow> QuestionDTO" where
  "questionModelToQuestionDTO question =
     \<lparr>dto_ID = q_ID question, dto_QuestionNumber = q_QuestionNumber question,
      dto_Status = q_Status question, dto_Question = q_Question question,
      dto_Explanation = q_Explanation question\<rparr>"

definition questionsToIterationDTO :: "Iteration \<Rightarrow> Question list \<Rightarrow> IterationWithQuestions" where
  "questionsToIterationDTO iteration questions =
     \<lparr>iwq_SessionID = it_SessionID iteration, iwq_IterationID = it_ID iteration,
      iwq_IterationNumber = it_IterationNumber iteration, iwq_Title = it_Title iteration,
      iwq_Questions = map questionModelToQuestionDTO questions\<rparr>"

text \<open>The string values of the status constants.\<close>

fun statusString :: "SessionStatus \<Rightarrow> string" where
  "statusString SessionStatusNew = ''NEW''"
| "statusString SessionStatusAskUserGoal = ''ASK_USER_GOAL''"
| "statusString SessionStatusSelectOrCreateProject = ''SELECT_OR_CREATE_PROJECT''"
| "statusString SessionStatusAskUserContext = ''ASK_USER_CONTEXT''"
| "statusString SessionStatusChooseMode = ''CHOOSE_MODE''"
| "statusString SessionStatusInterviewInfo = ''INTERVIEW_INFO''"
| "statusString SessionStatusDraftInfo = ''DRAFT_INFO''"
| "statusString SessionStatusGeneratingQuestions = ''GENERATING_QUESTIONS''"
| "statusString SessionStatusWaitingForAnswers = ''WAITING_FOR_ANSWERS''"
| "statusString SessionStatusDraftCollecting = ''DRAFT_COLLECTING''"
| "statusString SessionStatusValidating = ''VALIDATING''"
| "statusString SessionStatusGeneratingRequirements = ''GENERATING_REQUIREMENTS''"
| "statusString SessionStatusDone = ''DONE''"
| "statusString SessionStatusError = ''ERROR''"
| "statusString SessionStatusCanceled = ''CANCELED''"
| "statusString SessionStatusAskProjectName = ''ASK_PROJECT_NAME''"
| "statusString SessionStatusAskProjectDescription = ''ASK_PROJECT_DESCRIPTION''"

text \<open>\<^verbatim>\<open>fmt.Errorf("wrong action on status '%s'", session.Status)\<close>\<close>

definition wrongAction :: "SessionStatus \<Rightarrow> error" where
  "wrongAction st = ''wrong action on status '' @ [CHR 0x27] @ statusString st @ [CHR 0x27]"

text \<open>
  The title the validation functions give to the block of follow-up questions (Russian for
  "additional questions"), as the UTF-8 bytes of the Go string literal.
\<close>

definition additionalQuestionsTitle :: string where
  "additionalQuestionsTitle =
     map char_of [208::nat, 148, 208, 190, 208, 191, 208, 190, 208, 187, 208, 189, 208, 184,
       209, 130, 208, 181, 208, 187, 209, 140, 208, 189, 209, 139, 208, 181, 32, 208, 178,
       208, 190, 208, 191, 209, 128, 208, 190, 209, 129, 209, 139]"

text \<open>\<^verbatim>\<open>%d\<close> of \<^verbatim>\<open>fmt\<close>: the decimal digits of an integer.\<close>

fun digits10 :: "nat \<Rightarrow> string" where
  "digits10 n =
     (if n < 10 then [char_of (48 + n)] else digits10 (n div 10) @ [char_of (48 + n mod 10)])"

declare digits10.simps [simp del]

definition itoa :: "int \<Rightarrow> string" where
  "itoa i = (if i < 0 then CHR ''-'' # digits10 (nat (- i)) else digits10 (nat i))"

text \<open>
  The three connectors are external services. Each use-case function that calls one takes
  the connector's answer as an argument: \<open>Inl e\<close> when the call fails with \<open>e\<close>, \<open>Inr x\<close>
  when it returns \<open>x\<close>. A call to the LLM connector is counted in \<open>llm_calls\<close>. The request
  the function sends is not part of the model, except where building it can fail.
\<close>

definition LLMConnector_call :: "error + 'a \<Rightarrow> 'a io" where
  "LLMConnector_call answer db = (db\<lparr>llm_calls := llm_calls db + 1\<rparr>, answer)"

definition generateQuestionsBlocks :: "error + QuestionsBlock list \<Rightarrow> QuestionsBlock list io" where
  "generateQuestionsBlocks llm db =
     bindErr (LLMConnector_call llm db) ''generate questions'' (\<lambda>response.
       if length response = 0 then fail ''no questions generated''
       else ok response)"

text \<open>The inner loop of \<^verbatim>\<open>saveQuestionsToDatabase\<close>, over the questions of one block.\<close>

fun saveBlockQuestions :: "uuid \<Rightarrow> int \<Rightarrow> LLMQuestion list \<Rightarrow> Question list \<Rightarrow> Question list io" where
  "saveBlockQuestions iterationID qIdx [] questions db = (db, Inr questions)"
| "saveBlockQuestions iterationID qIdx (q # rest) questions db =
     (let (qid, db1) = uuid_New db;
          question = \<lparr>q_ID = qid, q_IterationID = iterationID, q_QuestionNumber = qIdx + 1,
                      q_Status = AnswerStatusUnanswered, q_Question = lq_Text q,
                      q_Explanation = lq_Explanation q, q_Answer = None, q_CreatedAt = 0,
                      q_AnsweredAt = None\<rparr>
      in case QuestionPostgres_CreateQuestion question db1 of
           (db2, Inl e) \<Rightarrow> (db2, Inl (wrapErr ''create question'' e))
         | (db2, Inr _) \<Rightarrow> saveBlockQuestions iterationID (qIdx + 1) rest (questions @ [question]) db2)"

text \<open>The outer loop, over the blocks; \<open>idx\<close> is the index of the block.\<close>

fun saveBlocks ::
  "uuid \<Rightarrow> int \<Rightarrow> int \<Rightarrow> QuestionsBlock list \<Rightarrow> IterationWithQuestions list
     \<Rightarrow> IterationWithQuestions list io" where
  "saveBlocks sessionID maxIterationNumber idx [] iterations db = (db, Inr iterations)"
| "saveBlocks sessionID maxIterationNumber idx (block # rest) iterations db =
     (let iterationNumber = maxIterationNumber + idx + 1;
          (iid, db1) = uuid_New db;
          iteration = \<lparr>it_ID = iid, it_SessionID = sessionID, it_IterationNumber = iterationNumber,
                       it_Title = qb_Title block, it_CreatedAt = 0\<rparr>
      in case IterationPostgres_CreateIteration iteration db1 of
           (db2, Inl e) \<Rightarrow> (db2, Inl (wrapErr (''create iteration '' @ itoa iterationNumber) e))
         | (db2, Inr savedIteration) \<Rightarrow>
             (case saveBlockQuestions (it_ID savedIteration) 0 (qb_Questions block) [] db2 of
                (db3, Inl e) \<Rightarrow> (db3, Inl e)
              | (db3, Inr questions) \<Rightarrow>
                  saveBlocks sessionID maxIterationNumber (idx + 1) rest
                    (iterations @ [questionsToIterationDTO savedIteration questions]) db3))"

definition saveQuestionsToDatabase :: "uuid \<Rightarrow> QuestionsBlock list \<Rightarrow> IterationWithQuestions list io" where
  "saveQuestionsToDatabase sessionID blocks db =
     (let maxIterationNumber =
            (case IterationPostgres_GetMaxIterationNumber sessionID db of
               (_, Inl _) \<Rightarrow> 0
             | (_, Inr n) \<Rightarrow> n)
      in saveBlocks sessionID maxIterationNumber 0 blocks [] db)"

definition getCurrentIteration :: "uuid \<Rightarrow> IterationWithQuestions option io" where
  "getCurrentIteration sessionID db =
     bindErr (IterationPostgres_GetCurrentIteration sessionID db) ''get current iteration''
       (\<lambda>currentIteration db.
     case QuestionPostgres_ListQuestionsByIteration (it_ID currentIteration) db of
       (db, Inl e) \<Rightarrow> (db, Inl (wrapErr ''list questions by iteration'' e))
     | (db, Inr curentQuestion) \<Rightarrow>
     if length curentQuestion = 0 then (db, Inl (wrapErr ''list questions by iteration'' nilErr))
     else if q_Status (last curentQuestion) = AnswerStatusUnanswered
     then (db, Inr (Some (questionsToIterationDTO currentIteration curentQuestion)))
     else
       (case IterationPostgres_GetNextIteration sessionID db of
          (db, Inl e) \<Rightarrow> (db, Inr None)
        | (db, Inr nextIteration) \<Rightarrow>
            bindErr (SessionPostgres_UpdateSessionIteration sessionID db) ''update iteration''
              (\<lambda>_ db.
            case QuestionPostgres_ListQuestionsByIteration (it_ID nextIteration) db of
              (db, Inl e) \<Rightarrow> (db, Inl (wrapErr ''list questions by iteration'' e))
            | (db, Inr curentQuestion) \<Rightarrow>
            if length curentQuestion = 0
            then (db, Inl (wrapErr ''list questions by iteration'' nilErr))
            else (db, Inr (Some (questionsToIterationDTO nextIteration curentQuestion))))))"

text \<open>
  \<^verbatim>\<open>transcribeAudio\<close>; \<open>asr\<close> is the answer of the ASR connector.
\<close>

definition transcribeAudio :: "error + string \<Rightarrow> string io" where
  "transcribeAudio asr db =
     (case asr of
        Inl e \<Rightarrow> (db, Inl (wrapErr ''transcribe audio'' e))
      | Inr transcript \<Rightarrow>
          if transcript = [] then (db, Inl ''transcription is empty'')
          else (db, Inr transcript))"

text \<open>
  \<^verbatim>\<open>collectAllAnswers\<close> dereferences \<^verbatim>\<open>question.Answer\<close> of every answered question:
  a nil pointer there is a run-time panic, returned here as an error.
\<close>

definition collectAllAnswers :: "uuid \<Rightarrow> QuestionWithAnswer list io" where
  "collectAllAnswers sessionID db =
     bindErr (QuestionPostgres_ListQuestionsBySession sessionID db) ''list iterations''
       (\<lambda>questions.
          if \<exists>question \<in> set questions.
               q_Status question = AnswerStatusAnswered \<and> q_Answer question = None
          then fail ''panic: nil pointer dereference''
          else ok (map (\<lambda>question. \<lparr>qa_Question = q_Question question,
                                      qa_Answer = the (q_Answer question)\<rparr>)
                     (filter (\<lambda>question. q_Status question = AnswerStatusAnswered) questions)))"

text \<open>
  \<^verbatim>\<open>formatManualContext\<close>: two \<^verbatim>\<open>Sprintf\<close> lines per question, with Russian labels
  ("question %d: %s" and "the user answered: %s"), given as UTF-8 bytes.
\<close>

definition formatContextLine :: "nat \<Rightarrow> QuestionWithAnswer \<Rightarrow> string" where
  "formatContextLine i qa =
     map char_of [208::nat, 146, 208, 190, 208, 191, 209, 128, 208, 190, 209, 129, 32]
       @ itoa (int i + 1) @ '': '' @ qa_Question qa @ [CHR 0x0A]
       @ map char_of [208::nat, 159, 208, 190, 208, 187, 209, 140, 208, 183, 208, 190, 208, 178,
           208, 176, 209, 130, 208, 181, 208, 187, 209, 140, 32, 208, 190, 209, 130, 208, 178,
           208, 181, 209, 130, 208, 184, 208, 187, 58, 32]
       @ qa_Answer qa @ [CHR 0x0A, CHR 0x0A]"

definition formatManualContext :: "QuestionWithAnswer list \<Rightarrow> string" where
  "formatManualContext questions =
     concat (map (\<lambda>(i, qa). formatContextLine i qa) (enumerate 0 questions))"

section \<open>Session use case: the operations (SessionUsecase)\<close>

definition StartSession :: "Session io" where
  "StartSession db =
     (let (sid, db1) = uuid_New db
      in bindErr (SessionPostgres_CreateSession sid SessionStatusAskUserGoal db1) ''create session''
           (\<lambda>createdSession. ok createdSession))"

definition SubmitTextUserGoal :: "uuid \<Rightarrow> string \<Rightarrow> Session io" where
  "SubmitTextUserGoal sessionID goal db =
     bindErr (SessionPostgres_GetSessionByID sessionID db) ''get session'' (\<lambda>session.
     if s_Status session \<noteq> SessionStatusAskUserGoal then fail (wrongAction (s_Status session))
     else (\<lambda>db.
     bindErr (SessionPostgres_UpdateSessionUserGoal sessionID goal db) ''update user goal'' (\<lambda>_ db.
     bindErr (SessionPostgres_UpdateSessionStatus sessionID SessionStatusSelectOrCreateProject db)
       ''update session status'' (\<lambda>session. ok session))))"

definition SubmitAudioUserGoal :: "error + string \<Rightarrow> uuid \<Rightarrow> Session io" where
  "SubmitAudioUserGoal asr sessionID db =
     bindErr (SessionPostgres_GetSessionByID sessionID db) ''get session'' (\<lambda>session.
     if s_Status session \<noteq> SessionStatusAskUserGoal then fail (wrongAction (s_Status session))
     else (\<lambda>db.
     bindErr (transcribeAudio asr db) ''failed to transcribe audio'' (\<lambda>transcription.
     SubmitTextUserGoal sessionID transcription)))"

text \<open>\<open>rag\<close> is the answer of the RAG connector's \<^verbatim>\<open>GetContext\<close>.\<close>

definition SubmitRAGProjectContext :: "error + string \<Rightarrow> uuid \<Rightarrow> uuid \<Rightarrow> Session io" where
  "SubmitRAGProjectContext rag sessionID projectID db =
     bindErr (SessionPostgres_GetSessionByID sessionID db) ''get session'' (\<lambda>session.
     if s_Status session \<noteq> SessionStatusSelectOrCreateProject
     then fail (wrongAction (s_Status session))
     else if s_UserGoal session = None \<or> s_UserGoal session = Some []
     then fail ''user goal must be set before generating context''
     else (\<lambda>db.
     bindErr (ProjectPostgres_Get projectID db) ''get project'' (\<lambda>_ db.
     bindErr (db, rag) ''get RAG context'' (\<lambda>ragContext db.
     bindErr (SessionPostgres_UpdateSessionRAGProjectContext sessionID projectID ragContext db)
       ''update project context'' (\<lambda>_ db.
     bindErr (SessionPostgres_UpdateSessionStatus sessionID SessionStatusChooseMode db)
       ''update session status'' (\<lambda>session. ok session))))))"

text \<open>
  \<^verbatim>\<open>Sprintf\<close> with a Russian sentence ("to the questions %s the user answered: %s"),
  given as UTF-8 bytes.
\<close>

definition formattedContext :: "string \<Rightarrow> string \<Rightarrow> string" where
  "formattedContext questions answers =
     map char_of [208::nat, 157, 208, 176, 32, 208, 178, 208, 190, 208, 191, 209, 128, 208, 190,
       209, 129, 209, 139, 32]
     @ questions
     @ map char_of [32::nat, 208, 191, 208, 190, 208, 187, 209, 140, 208, 183, 208, 190, 208, 178,
         208, 176, 209, 130, 208, 181, 208, 187, 209, 140, 32, 208, 190, 209, 130, 208, 178,
         208, 181, 209, 130, 208, 184, 208, 187, 58, 32]
     @ answers"

definition SubmitTextUserProjectContext :: "uuid \<Rightarrow> string \<Rightarrow> string \<Rightarrow> Session io" where
  "SubmitTextUserProjectContext sessionID questions answers db =
     bindErr (SessionPostgres_GetSessionByID sessionID db) ''get session'' (\<lambda>session.
     if s_Status session \<noteq> SessionStatusAskUserContext then fail (wrongAction (s_Status session))
     else (\<lambda>db.
     bindErr (SessionPostgres_UpdateSessionProjectContext sessionID
                (formattedContext questions answers) db)
       ''update project context'' (\<lambda>_ db.
     bindErr (SessionPostgres_UpdateSessionStatus sessionID SessionStatusChooseMode db)
       ''update session status'' (\<lambda>session. ok session))))"

definition SubmitAudioUserProjectContext :: "error + string \<Rightarrow> uuid \<Rightarrow> string \<Rightarrow> Session io" where
  "SubmitAudioUserProjectContext asr sessionID questions db =
     bindErr (SessionPostgres_GetSessionByID sessionID db) ''get session'' (\<lambda>session.
     if s_Status session \<noteq> SessionStatusAskUserContext then fail (wrongAction (s_Status session))
     else (\<lambda>db.
     bindErr (transcribeAudio asr db) ''failed to transcribe audio'' (\<lambda>transcription.
     SubmitTextUserProjectContext sessionID questions transcription)))"

text \<open>
  \<^verbatim>\<open>sessionType.Validate()\<close> accepts exactly the two values of \<^typ>\<open>SessionType\<close>.
\<close>

definition SetSessionType :: "uuid \<Rightarrow> SessionType \<Rightarrow> Session io" where
  "SetSessionType sessionID sessionType db =
     bindErr (SessionPostgres_GetSessionByID sessionID db) ''get session'' (\<lambda>session.
     if s_Status session \<noteq> SessionStatusChooseMode then fail (wrongAction (s_Status session))
     else (\<lambda>db.
     bindErr (SessionPostgres_UpdateSessionType sessionID sessionType db) ''update session type''
       (\<lambda>_ db.
     let status = (case sessionType of
                     SessionTypeInterview \<Rightarrow> SessionStatusInterviewInfo
                   | SessionTypeDraft \<Rightarrow> SessionStatusDraftInfo)
     in bindErr (SessionPostgres_UpdateSessionStatus sessionID status db)
          ''update session status'' (\<lambda>session. ok session))))"

definition StartManualContext :: "uuid \<Rightarrow> Session io" where
  "StartManualContext sessionID db =
     bindErr (SessionPostgres_GetSessionByID sessionID db) ''get session'' (\<lambda>session.
     if s_Status session \<noteq> SessionStatusSelectOrCreateProject
     then fail (wrongAction (s_Status session))
     else (\<lambda>db.
     bindErr (SessionPostgres_UpdateSessionStatus sessionID SessionStatusAskUserContext db)
       ''update session status'' (\<lambda>updated. ok updated)))"

definition RestartModeSelection :: "uuid \<Rightarrow> Session io" where
  "RestartModeSelection sessionID db =
     bindErr (SessionPostgres_GetSessionByID sessionID db) ''get session'' (\<lambda>session.
     if s_Status session \<noteq> SessionStatusInterviewInfo \<and> s_Status session \<noteq> SessionStatusDraftInfo
     then fail (wrongAction (s_Status session))
     else (\<lambda>db.
     bindErr (SessionPostgres_UpdateSessionStatus sessionID SessionStatusChooseMode db)
       ''update session status'' (\<lambda>updated. ok updated)))"

definition RestartProjectSelection :: "uuid \<Rightarrow> Session io" where
  "RestartProjectSelection sessionID db =
     bindErr (SessionPostgres_GetSessionByID sessionID db) ''get session'' (\<lambda>session.
     if s_Status session \<noteq> SessionStatusChooseMode then fail (wrongAction (s_Status session))
     else (\<lambda>db.
     bindErr (SessionPostgres_UpdateSessionStatus sessionID SessionStatusSelectOrCreateProject db)
       ''update session status'' (\<lambda>updated. ok updated)))"

definition StartDraftCollecting :: "uuid \<Rightarrow> Session io" where
  "StartDraftCollecting sessionID db =
     bindErr (SessionPostgres_GetSessionByID sessionID db) ''get session'' (\<lambda>session.
     if s_Type session \<noteq> Some SessionTypeDraft
     then fail ''wrong session type for draft collecting''
     else if s_Status session \<noteq> SessionStatusDraftInfo then fail (wrongAction (s_Status session))
     else (\<lambda>db.
     bindErr (SessionPostgres_UpdateSessionStatus sessionID SessionStatusDraftCollecting db)
       ''update session status'' (\<lambda>updated. ok updated)))"

text \<open>\<open>llm\<close> is the answer of the LLM connector's \<^verbatim>\<open>GenerateQuestions\<close>.\<close>

definition LoadSessionQuestions ::
  "error + QuestionsBlock list \<Rightarrow> uuid \<Rightarrow> IterationWithQuestions list io" where
  "LoadSessionQuestions llm sessionID db =
     bindErr (SessionPostgres_GetSessionByID sessionID db) ''get session'' (\<lambda>session.
     if s_Status session \<noteq> SessionStatusInterviewInfo then fail (wrongAction (s_Status session))
     else if s_UserGoal session = None \<or> s_UserGoal session = Some []
     then fail ''user goal must be set before generating questions''
     else if s_ProjectContext session = None \<or> s_ProjectContext session = Some []
     then fail ''project context must be set before generating questions''
     else (\<lambda>db.
     case (case s_ProjectID session of
             None \<Rightarrow> (db, Inr ())
           | Some projectID \<Rightarrow>
               (case ProjectPostgres_Get projectID db of
                  (db, Inl e) \<Rightarrow> (db, Inl (wrapErr ''get project description'' e))
                | (db, Inr project) \<Rightarrow>
                    if p_Description project = []
                    then (db, Inl (wrapErr ''get project description'' nilErr))
                    else (db, Inr ()))) of
       (db, Inl e) \<Rightarrow> (db, Inl e)
     | (db, Inr _) \<Rightarrow>
     bindErr (generateQuestionsBlocks llm db) ''generate questions'' (\<lambda>blocks db.
     bindErr (saveQuestionsToDatabase sessionID blocks db) ''save questions'' (\<lambda>savedIterations db.
     bindErr (SessionPostgres_UpdateSessionStatus sessionID SessionStatusWaitingForAnswers db)
       ''update session status'' (\<lambda>_ db.
     bindErr (SessionPostgres_UpdateSessionStatus sessionID SessionStatusWaitingForAnswers db)
       ''update session status'' (\<lambda>_. ok savedIterations))))))"

definition SkipAnswer :: "uuid \<Rightarrow> uuid \<Rightarrow> IterationWithQuestions option io" where
  "SkipAnswer sessionID questionID db =
     bindErr (SessionPostgres_GetSessionByID sessionID db) ''get session'' (\<lambda>session.
     if s_Status session \<noteq> SessionStatusWaitingForAnswers
     then fail (wrongAction (s_Status session))
     else (\<lambda>db.
     bindErr (QuestionPostgres_SkipQuestion questionID db) ''skip question'' (\<lambda>_ db.
     bindErr (getCurrentIteration sessionID db) ''get current/next iteration'' (\<lambda>iteration db.
     if iteration = None
     then bindErr (SessionPostgres_UpdateSessionStatus sessionID SessionStatusValidating db)
            ''update session status'' (\<lambda>_. ok iteration)
     else (db, Inr iteration)))))"

definition SubmitTextAnswer :: "uuid \<Rightarrow> uuid \<Rightarrow> string \<Rightarrow> IterationWithQuestions option io" where
  "SubmitTextAnswer sessionID questionID answer db =
     bindErr (SessionPostgres_GetSessionByID sessionID db) ''get session'' (\<lambda>session.
     if s_Status session \<noteq> SessionStatusWaitingForAnswers
     then fail (wrongAction (s_Status session))
     else (\<lambda>db.
     bindErr (QuestionPostgres_UpdateQuestionAnswer questionID answer db) ''save answer'' (\<lambda>_ db.
     bindErr (getCurrentIteration sessionID db) ''get current/next iteration'' (\<lambda>iteration db.
     if iteration = None
     then bindErr (QuestionPostgres_GetUnansweredQuestions sessionID db)
            ''check unanswered questions'' (\<lambda>unansweredQuestions db.
          if length unansweredQuestions = 0
          then bindErr (SessionPostgres_UpdateSessionStatus sessionID SessionStatusValidating db)
                 ''update session status'' (\<lambda>_. ok iteration)
          else (db, Inr iteration))
     else (db, Inr iteration)))))"

definition SubmitAudioAnswer ::
  "error + string \<Rightarrow> uuid \<Rightarrow> uuid \<Rightarrow> IterationWithQuestions option io" where
  "SubmitAudioAnswer asr sessionID questionID db =
     bindErr (SessionPostgres_GetSessionByID sessionID db) ''get session'' (\<lambda>session.
     if s_Status session \<noteq> SessionStatusWaitingForAnswers
     then fail (wrongAction (s_Status session))
     else (\<lambda>db.
     bindErr (transcribeAudio asr db) ''failed to transcribe audio'' (\<lambda>transcription.
     SubmitTextAnswer sessionID questionID transcription)))"

definition SessionUsecase_GetUnansweredQuestions :: "uuid \<Rightarrow> Question list io" where
  "SessionUsecase_GetUnansweredQuestions sessionID db =
     bindErr (QuestionPostgres_GetUnansweredQuestions sessionID db) ''get unanswered questions''
       (\<lambda>questions. ok questions)"

definition SkipSkipedQuestion :: "uuid \<Rightarrow> uuid \<Rightarrow> Question list io" where
  "SkipSkipedQuestion sessionID questionID db =
     bindErr (SessionPostgres_GetSessionByID sessionID db) ''get session'' (\<lambda>session.
     if s_Status session \<noteq> SessionStatusWaitingForAnswers
     then fail (wrongAction (s_Status session))
     else (\<lambda>db.
     bindErr (QuestionPostgres_SkipQuestion questionID db) ''skip question'' (\<lambda>_ db.
     bindErr (QuestionPostgres_GetUnansweredQuestions sessionID db) ''get unanswered questions''
       (\<lambda>questions db.
     if length questions = 0
     then bindErr (SessionPostgres_UpdateSessionStatus sessionID SessionStatusValidating db)
            ''update session status'' (\<lambda>_. ok questions)
     else (db, Inr questions)))))"

definition SetWaitingForAnswersStatus :: "uuid \<Rightarrow> unit io" where
  "SetWaitingForAnswersStatus sessionID db =
     bindErr (SessionPostgres_GetSessionByID sessionID db) ''get session'' (\<lambda>_ db.
     bindErr (SessionPostgres_UpdateSessionStatus sessionID SessionStatusWaitingForAnswers db)
       ''update session status to waiting for answers'' (\<lambda>_. ok ()))"

definition GetQuestionExplanation :: "uuid \<Rightarrow> string io" where
  "GetQuestionExplanation questionID db =
     bindErr (QuestionPostgres_GetQuestionByID questionID db) ''get question''
       (\<lambda>question. ok (q_Explanation question))"

definition hasAdditionalBlock :: "Iteration list \<Rightarrow> bool" where
  "hasAdditionalBlock iterations = (\<exists>it \<in> set iterations. it_Title it = additionalQuestionsTitle)"

text \<open>\<open>llm\<close> is the answer of the LLM connector's \<^verbatim>\<open>ValidateAnswers\<close>.\<close>

definition ValidateAnswers ::
  "error + LLMQuestion list \<Rightarrow> uuid \<Rightarrow> IterationWithQuestions option io" where
  "ValidateAnswers llm sessionID db =
     bindErr (SessionPostgres_GetSessionByID sessionID db) ''get session'' (\<lambda>session.
     if s_Status session \<noteq> SessionStatusValidating
        \<and> s_Status session \<noteq> SessionStatusWaitingForAnswers
     then fail (wrongAction (s_Status session))
     else if s_UserGoal session = None \<or> s_UserGoal session = Some []
     then fail ''user goal not set''
     else if s_ProjectContext session = None \<or> s_ProjectContext session = Some []
     then fail ''project context not set''
     else (\<lambda>db.
     bindErr (IterationPostgres_ListIterationsBySession sessionID db)
       ''list iterations before additional questions'' (\<lambda>iterations db.
     if hasAdditionalBlock iterations
     then bindErr (SessionPostgres_UpdateSessionStatus sessionID SessionStatusGeneratingRequirements db)
            ''update session status'' (\<lambda>_. ok None)
     else
     bindErr (collectAllAnswers sessionID db) ''collect answers'' (\<lambda>allAnswers db.
     bindErr (LLMConnector_call llm db) ''validate answers'' (\<lambda>validateResp db.
     case (if length validateResp \<noteq> 0
           then (case saveQuestionsToDatabase sessionID
                         [\<lparr>qb_Title = additionalQuestionsTitle, qb_Questions = validateResp\<rparr>] db of
                   (db, Inl e) \<Rightarrow> (db, Inl (wrapErr ''save questions'' e))
                 | (db, Inr []) \<Rightarrow> (db, Inl (wrapErr ''save questions'' nilErr))
                 | (db, Inr (first # _)) \<Rightarrow> (db, Inr (Some first, SessionStatusWaitingForAnswers)))
           else (db, Inr (None, SessionStatusGeneratingRequirements))) of
       (db, Inl e) \<Rightarrow> (db, Inl e)
     | (db, Inr (additionalIteration, status)) \<Rightarrow>
         bindErr (SessionPostgres_UpdateSessionStatus sessionID status db)
           ''update session status'' (\<lambda>_. ok additionalIteration))))))"

text \<open>\<open>llm\<close> is the answer of the LLM connector's \<^verbatim>\<open>GenerateSummary\<close>.\<close>

definition GenerateSummary :: "error + string \<Rightarrow> uuid \<Rightarrow> Session io" where
  "GenerateSummary llm sessionID db =
     bindErr (SessionPostgres_GetSessionByID sessionID db) ''get session'' (\<lambda>session.
     if s_Status session \<noteq> SessionStatusGeneratingRequirements
        \<and> s_Status session \<noteq> SessionStatusWaitingForAnswers
     then fail (wrongAction (s_Status session))
     else if s_UserGoal session = None \<or> s_UserGoal session = Some []
     then fail ''user goal not set''
     else if s_ProjectContext session = None \<or> s_ProjectContext session = Some []
     then fail ''project context not set''
     else (\<lambda>db.
     bindErr (collectAllAnswers sessionID db) ''collect answers'' (\<lambda>allAnswers db.
     bindErr (LLMConnector_call llm db) ''generate summary'' (\<lambda>summaryResp db.
     bindErr (SessionPostgres_UpdateSessionResult sessionID SessionStatusDone (Some summaryResp)
                None db)
       ''save summary'' (\<lambda>updatedSession. ok updatedSession)))))"

definition CancelSession :: "uuid \<Rightarrow> unit io" where
  "CancelSession sessionID db =
     bindErr (SessionPostgres_GetSessionByID sessionID db) ''get session'' (\<lambda>session.
     if s_Status session = SessionStatusDone \<or> s_Status session = SessionStatusCanceled
     then fail (wrongAction (s_Status session))
     else (\<lambda>db.
     bindErr (SessionPostgres_UpdateSessionStatus sessionID SessionStatusCanceled db)
       ''cancel session'' (\<lambda>_. ok ())))"

definition SessionUsecase_UpdateSessionStatus :: "uuid \<Rightarrow> SessionStatus \<Rightarrow> Session io" where
  "SessionUsecase_UpdateSessionStatus sessionID status db =
     bindErr (SessionPostgres_GetSessionByID sessionID db) ''get session'' (\<lambda>session db.
     bindErr (SessionPostgres_UpdateSessionStatus sessionID status db) ''update session status''
       (\<lambda>updatedSession. ok updatedSession))"

definition invalidStatusForDraft :: "SessionStatus \<Rightarrow> error" where
  "invalidStatusForDraft st = ''invalid session status for adding draft message: '' @ statusString st"

definition AddDraftMessage :: "uuid \<Rightarrow> string \<Rightarrow> SessionMessage io" where
  "AddDraftMessage sessionID messageText db =
     bindErr (SessionPostgres_GetSessionByID sessionID db) ''get session'' (\<lambda>session.
     if s_Status session \<noteq> SessionStatusDraftCollecting
     then fail (invalidStatusForDraft (s_Status session))
     else (\<lambda>db.
     bindErr (SessionMessagePostgres_CreateMessage sessionID messageText db)
       ''create draft message'' (\<lambda>msg. ok msg)))"

definition AddAudioDraftMessage :: "error + string \<Rightarrow> uuid \<Rightarrow> SessionMessage io" where
  "AddAudioDraftMessage asr sessionID db =
     bindErr (SessionPostgres_GetSessionByID sessionID db) ''get session'' (\<lambda>session.
     if s_Status session \<noteq> SessionStatusDraftCollecting
     then fail (invalidStatusForDraft (s_Status session))
     else (\<lambda>db.
     bindErr (transcribeAudio asr db) ''failed to transcribe audio'' (\<lambda>transcription.
     AddDraftMessage sessionID transcription)))"

text \<open>
  \<open>llm\<close> is the answer of the LLM connector's \<^verbatim>\<open>ValidateDraft\<close>. The project
  description is read only to be put into the request.
\<close>

definition ValidateDraftMessages ::
  "error + LLMQuestion list \<Rightarrow> uuid \<Rightarrow> IterationWithQuestions option io" where
  "ValidateDraftMessages llm sessionID db =
     bindErr (SessionPostgres_GetSessionByID sessionID db) ''get session'' (\<lambda>session.
     if s_Status session \<noteq> SessionStatusDraftCollecting
        \<and> s_Status session \<noteq> SessionStatusWaitingForAnswers
        \<and> s_Status session \<noteq> SessionStatusValidating
     then fail (''invalid session status for validation: '' @ statusString (s_Status session))
     else if s_UserGoal session = None \<or> s_UserGoal session = Some []
     then fail ''user goal not set''
     else if s_ProjectContext session = None \<or> s_ProjectContext session = Some []
     then fail ''project context not set''
     else (\<lambda>db.
     bindErr (IterationPostgres_ListIterationsBySession sessionID db)
       ''list iterations before additional questions'' (\<lambda>iterations db.
     if hasAdditionalBlock iterations
     then bindErr (SessionPostgres_UpdateSessionStatus sessionID SessionStatusGeneratingRequirements db)
            ''update session status'' (\<lambda>_. ok None)
     else
     bindErr (SessionPostgres_UpdateSessionStatus sessionID SessionStatusValidating db)
       ''update session status'' (\<lambda>_ db.
     bindErr (SessionMessagePostgres_GetSessionMessages sessionID db) ''get session messages''
       (\<lambda>messages db.
     if length messages = 0 then (db, Inl ''no draft messages to validate'')
     else
     bindErr (QuestionPostgres_ListQuestionsBySession sessionID db) ''get questions by session''
       (\<lambda>questions db.
     case (case s_ProjectID session of
             None \<Rightarrow> (db, Inr ())
           | Some projectID \<Rightarrow>
               bindErr (ProjectPostgres_Get projectID db) ''get project description''
                 (\<lambda>project. ok ())) of
       (db, Inl e) \<Rightarrow> (db, Inl e)
     | (db, Inr _) \<Rightarrow>
     bindErr (LLMConnector_call llm db) ''validate draft'' (\<lambda>validateResp db.
     if length validateResp = 0
     then bindErr (SessionPostgres_UpdateSessionStatus sessionID
                     SessionStatusGeneratingRequirements db)
            ''update session status'' (\<lambda>_. ok None)
     else
       (case saveQuestionsToDatabase sessionID
               [\<lparr>qb_Title = additionalQuestionsTitle, qb_Questions = validateResp\<rparr>] db of
          (db, Inl e) \<Rightarrow> (db, Inl (wrapErr ''save questions'' e))
        | (db, Inr []) \<Rightarrow> (db, Inl (wrapErr ''save questions'' nilErr))
        | (db, Inr (first # _)) \<Rightarrow>
            bindErr (SessionPostgres_UpdateSessionStatus sessionID
                       SessionStatusWaitingForAnswers db)
              ''update session status'' (\<lambda>_. ok (Some first))))))))))"

text \<open>\<open>llm\<close> is the answer of the LLM connector's \<^verbatim>\<open>GenerateDraftSummary\<close>.\<close>

definition GenerateDraftSummary :: "error + string \<Rightarrow> uuid \<Rightarrow> Session io" where
  "GenerateDraftSummary llm sessionID db =
     bindErr (SessionPostgres_GetSessionByID sessionID db) ''get session'' (\<lambda>session.
     if s_Status session \<noteq> SessionStatusGeneratingRequirements
        \<and> s_Status session \<noteq> SessionStatusWaitingForAnswers
     then fail (''invalid session status: '' @ statusString (s_Status session))
     else if s_UserGoal session = None \<or> s_UserGoal session = Some []
     then fail ''user goal not set''
     else if s_ProjectContext session = None \<or> s_ProjectContext session = Some []
     then fail ''project context not set''
     else (\<lambda>db.
     bindErr (SessionMessagePostgres_GetSessionMessages sessionID db) ''get session messages''
       (\<lambda>messages db.
     if length messages = 0 then (db, Inl ''no draft messages to generate summary'')
     else
     bindErr (collectAllAnswers sessionID db) ''collect answers'' (\<lambda>additionalQuestions db.
     case (case s_ProjectID session of
             None \<Rightarrow> (db, Inr ())
           | Some projectID \<Rightarrow>
               bindErr (ProjectPostgres_Get projectID db) ''get project description''
                 (\<lambda>project. ok ())) of
       (db, Inl e) \<Rightarrow> (db, Inl e)
     | (db, Inr _) \<Rightarrow>
     bindErr (LLMConnector_call llm db) ''generate draft summary'' (\<lambda>summary db.
     bindErr (SessionPostgres_UpdateSessionResult sessionID SessionStatusDone (Some summary)
                None db)
       ''save draft summary'' (\<lambda>updatedSession. ok updatedSession))))))"

subsection \<open>The one-shot entry of the HTTP front end (http_usecase.go)\<close>

record StartSessionRequest =
  req_ProjectID :: "uuid option"
  req_UserGoal :: string
  req_ContextQuestions :: "QuestionWithAnswer list"

definition StartHTTPSession ::
  "error + string \<Rightarrow> error + QuestionsBlock list \<Rightarrow> StartSessionRequest
     \<Rightarrow> IterationWithQuestions io" where
  "StartHTTPSession rag llm req db =
     (let (sid, db0) = uuid_New db in
      case (case req_ProjectID req of
              Some projectID \<Rightarrow>
                bindErr (ProjectPostgres_Get projectID db0) ''get project'' (\<lambda>project db.
                bindErr (db, rag) ''get RAG context'' (\<lambda>projectContext. ok projectContext))
            | None \<Rightarrow> (db0, Inr (formatManualContext (req_ContextQuestions req)))) of
        (db, Inl e) \<Rightarrow> (db, Inl e)
      | (db, Inr projectContext) \<Rightarrow>
      bindErr (SessionPostgres_CreateFilledSession sid (req_ProjectID req)
                 SessionStatusWaitingForAnswers (Some SessionTypeInterview)
                 (Some (req_UserGoal req)) (Some projectContext) db)
        ''create filled session'' (\<lambda>session db.
      bindErr (generateQuestionsBlocks llm db) ''generate questions'' (\<lambda>blocks db.
      case saveQuestionsToDatabase (s_ID session) blocks db of
        (db, Inl e) \<Rightarrow> (db, Inl (wrapErr ''save questions'' e))
      | (db, Inr []) \<Rightarrow> (db, Inl (wrapErr ''save questions'' nilErr))
      | (db, Inr (first # _)) \<Rightarrow> (db, Inr first))))"

text \<open>
  \<open>audioFile\<close> is the outcome of opening and reading the uploaded file: its bytes, or the
  error of \<^verbatim>\<open>Open\<close> or \<^verbatim>\<open>ReadAll\<close> as wrapped by the function.
\<close>

definition SubmitHTTPAudioAnswer ::
  "error + string \<Rightarrow> error + string \<Rightarrow> uuid \<Rightarrow> uuid \<Rightarrow> IterationWithQuestions option io" where
  "SubmitHTTPAudioAnswer audioFile asr sessionID questionID db =
     bindErr (SessionPostgres_GetSessionByID sessionID db) ''get session'' (\<lambda>session.
     if s_Status session \<noteq> SessionStatusWaitingForAnswers
     then fail (wrongAction (s_Status session))
     else (\<lambda>db.
     case audioFile of
       Inl e \<Rightarrow> (db, Inl e)
     | Inr audioData \<Rightarrow> SubmitAudioAnswer asr sessionID questionID db))"

section \<open>The conditional status update of the specification\<close>


section \<open>Example stores\<close>

definition emptyDB :: DB where
  "emptyDB = \<lparr>sessions = Map.empty, projects = Map.empty, session_iterations = [],
              iteration_questions = [], session_messages = [], uuid_next = 100, clock = 7,
              llm_calls = 0\<rparr>"

definition exampleSession :: "uuid \<Rightarrow> SessionStatus \<Rightarrow> Session" where
  "exampleSession sid st =
     \<lparr>s_ID = sid, s_ProjectID = None, s_Status = st, s_Type = Some SessionTypeInterview,
      s_UserGoal = Some ''build a CRM'', s_ProjectContext = Some ''context'',
      s_CurrentIteration = 1, s_Result = None, s_Error = None, s_CreatedAt = 1,
      s_UpdatedAt = 1\<rparr>"

text \<open>A store with the single session 1, in the given status.\<close>

definition oneSessionDB :: "SessionStatus \<Rightarrow> DB" where
  "oneSessionDB st = emptyDB\<lparr>sessions := [1 \<mapsto> exampleSession 1 st]\<rparr>"

definition exampleIteration :: "uuid \<Rightarrow> uuid \<Rightarrow> int \<Rightarrow> string \<Rightarrow> Iteration" where
  "exampleIteration iid sid n title =
     \<lparr>it_ID = iid, it_SessionID = sid, it_IterationNumber = n, it_Title = title, it_CreatedAt = 2\<rparr>"

definition exampleQuestion :: "uuid \<Rightarrow> uuid \<Rightarrow> int \<Rightarrow> QuestionStatus \<Rightarrow> string option \<Rightarrow> Question" where
  "exampleQuestion qid iid n st answer =
     \<lparr>q_ID = qid, q_IterationID = iid, q_QuestionNumber = n, q_Status = st,
      q_Question = ''Who are the users?'', q_Explanation = ''roles'', q_Answer = answer,
      q_CreatedAt = 2, q_AnsweredAt = (if answer = None then None else Some 3)\<rparr>"

text \<open>
  Session 1 in the given status, with one iteration (identifier 10, number 1) holding one
  question (identifier 20, number 1) in the given status and with the given answer.
\<close>

definition interviewDB :: "SessionStatus \<Rightarrow> QuestionStatus \<Rightarrow> string option \<Rightarrow> DB" where
  "interviewDB st qst answer =
     (oneSessionDB st)\<lparr>session_iterations := [exampleIteration 10 1 1 ''Block 1''],
                        iteration_questions := [exampleQuestion 20 10 1 qst answer]\<rparr>"

definition exampleBlocks :: "QuestionsBlock list" where
  "exampleBlocks =
     [\<lparr>qb_Title = ''Scope'', qb_Questions = [\<lparr>lq_Text = ''What is in scope?'', lq_Explanation = ''e1''\<rparr>,
                                              \<lparr>lq_Text = ''What is out of scope?'', lq_Explanation = ''e2''\<rparr>]\<rparr>,
      \<lparr>qb_Title = ''Users'', qb_Questions = [\<lparr>lq_Text = ''Who uses it?'', lq_Explanation = ''e3''\<rparr>]\<rparr>]"

section \<open>The engine as a set of operations\<close>

definition statusOf :: "DB \<Rightarrow> uuid \<Rightarrow> SessionStatus option" where
  "statusOf db sid = map_option s_Status (sessions db sid)"

text \<open>
  The methods of \<^verbatim>\<open>SessionUsecase\<close> that write to the store, each with its arguments and
  with the answers of the connectors it may call. The remaining methods (\<^verbatim>\<open>GetSession\<close>,
  \<^verbatim>\<open>GetSessionResult\<close>, \<^verbatim>\<open>GetUnansweredQuestions\<close>, \<^verbatim>\<open>GetQuestionExplanation\<close>,
  \<^verbatim>\<open>GetQuestionByID\<close>, \<^verbatim>\<open>GetIterationByID\<close>, \<^verbatim>\<open>HasSkippedQuestions\<close>) only read.
\<close>

datatype EngineOp =
    OpStartSession
  | OpSubmitTextUserGoal uuid string
  | OpSubmitAudioUserGoal "error + string" uuid
  | OpSubmitRAGProjectContext "error + string" uuid uuid
  | OpSubmitTextUserProjectContext uuid string string
  | OpSubmitAudioUserProjectContext "error + string" uuid string
  | OpSetSessionType uuid SessionType
  | OpStartManualContext uuid
  | OpRestartModeSelection uuid
  | OpRestartProjectSelection uuid
  | OpStartDraftCollecting uuid
  | OpLoadSessionQuestions "error + QuestionsBlock list" uuid
  | OpSkipAnswer uuid uuid
  | OpSubmitTextAnswer uuid uuid string
  | OpSubmitAudioAnswer "error + string" uuid uuid
  | OpSubmitHTTPAudioAnswer "error + string" "error + string" uuid uuid
  | OpSkipSkipedQuestion uuid uuid
  | OpSetWaitingForAnswersStatus uuid
  | OpValidateAnswers "error + LLMQuestion list" uuid
  | OpGenerateSummary "error + string" uuid
  | OpCancelSession uuid
  | OpUpdateSessionStatus uuid SessionStatus
  | OpAddDraftMessage uuid string
  | OpAddAudioDraftMessage "error + string" uuid
  | OpValidateDraftMessages "error + LLMQuestion list" uuid
  | OpGenerateDraftSummary "error + string" uuid
  | OpStartHTTPSession "error + string" "error + QuestionsBlock list" StartSessionRequest

text \<open>The store an operation leaves, and its error (\<open>None\<close> when it succeeds).\<close>

definition outcome :: "DB \<times> (error + 'a) \<Rightarrow> DB \<times> error option" where
  "outcome p = (fst p, case snd p of Inl e \<Rightarrow> Some e | Inr _ \<Rightarrow> None)"

fun run :: "EngineOp \<Rightarrow> DB \<Rightarrow> DB \<times> error option" where
  "run OpStartSession db = outcome (StartSession db)"
| "run (OpSubmitTextUserGoal sid goal) db = outcome (SubmitTextUserGoal sid goal db)"
| "run (OpSubmitAudioUserGoal asr sid) db = outcome (SubmitAudioUserGoal asr sid db)"
| "run (OpSubmitRAGProjectContext rag sid pid) db = outcome (SubmitRAGProjectContext rag sid pid db)"
| "run (OpSubmitTextUserProjectContext sid qs as) db
     = outcome (SubmitTextUserProjectContext sid qs as db)"
| "run (OpSubmitAudioUserProjectContext asr sid qs) db
     = outcome (SubmitAudioUserProjectContext asr sid qs db)"
| "run (OpSetSessionType sid ty) db = outcome (SetSessionType sid ty db)"
| "run (OpStartManualContext sid) db = outcome (StartManualContext sid db)"
| "run (OpRestartModeSelection sid) db = outcome (RestartModeSelection sid db)"
| "run (OpRestartProjectSelection sid) db = outcome (RestartProjectSelection sid db)"
| "run (OpStartDraftCollecting sid) db = outcome (StartDraftCollecting sid db)"
| "run (OpLoadSessionQuestions llm sid) db = outcome (LoadSessionQuestions llm sid db)"
| "run (OpSkipAnswer sid qid) db = outcome (SkipAnswer sid qid db)"
| "run (OpSubmitTextAnswer sid qid a) db = outcome (SubmitTextAnswer sid qid a db)"
| "run (OpSubmitAudioAnswer asr sid qid) db = outcome (SubmitAudioAnswer asr sid qid db)"
| "run (OpSubmitHTTPAudioAnswer file asr sid qid) db
     = outcome (SubmitHTTPAudioAnswer file asr sid qid db)"
| "run (OpSkipSkipedQuestion sid qid) db = outcome (SkipSkipedQuestion sid qid db)"
| "run (OpSetWaitingForAnswersStatus sid) db = outcome (SetWaitingForAnswersStatus sid db)"
| "run (OpValidateAnswers llm sid) db = outcome (ValidateAnswers llm sid db)"
| "run (OpGenerateSummary llm sid) db = outcome (GenerateSummary llm sid db)"
| "run (OpCancelSession sid) db = outcome (CancelSession sid db)"
| "run (OpUpdateSessionStatus sid st) db = outcome (SessionUsecase_UpdateSessionStatus sid st db)"
| "run (OpAddDraftMessage sid t) db = outcome (AddDraftMessage sid t db)"
| "run (OpAddAudioDraftMessage asr sid) db = outcome (AddAudioDraftMessage asr sid db)"
| "run (OpValidateDraftMessages llm sid) db = outcome (ValidateDraftMessages llm sid db)"
| "run (OpGenerateDraftSummary llm sid) db = outcome (GenerateDraftSummary llm sid db)"
| "run (OpStartHTTPSession rag llm req) db = outcome (StartHTTPSession rag llm req db)"

text \<open>The session an operation is called for; the two start operations create one.\<close>

fun target :: "EngineOp \<Rightarrow> uuid option" where
  "target OpStartSession = None"
| "target (OpSubmitTextUserGoal sid goal) = Some sid"
| "target (OpSubmitAudioUserGoal asr sid) = Some sid"
| "target (OpSubmitRAGProjectContext rag sid pid) = Some sid"
| "target (OpSubmitTextUserProjectContext sid qs as) = Some sid"
| "target (OpSubmitAudioUserProjectContext asr sid qs) = Some sid"
| "target (OpSetSessionType sid ty) = Some sid"
| "target (OpStartManualContext sid) = Some sid"
| "target (OpRestartModeSelection sid) = Some sid"
| "target (OpRestartProjectSelection sid) = Some sid"
| "target (OpStartDraftCollecting sid) = Some sid"
| "target (OpLoadSessionQuestions llm sid) = Some sid"
| "target (OpSkipAnswer sid qid) = Some sid"
| "target (OpSubmitTextAnswer sid qid a) = Some sid"
| "target (OpSubmitAudioAnswer asr sid qid) = Some sid"
| "target (OpSubmitHTTPAudioAnswer file asr sid qid) = Some sid"
| "target (OpSkipSkipedQuestion sid qid) = Some sid"
| "target (OpSetWaitingForAnswersStatus sid) = Some sid"
| "target (OpValidateAnswers llm sid) = Some sid"
| "target (OpGenerateSummary llm sid) = Some sid"
| "target (OpCancelSession sid) = Some sid"
| "target (OpUpdateSessionStatus sid st) = Some sid"
| "target (OpAddDraftMessage sid t) = Some sid"
| "target (OpAddAudioDraftMessage asr sid) = Some sid"
| "target (OpValidateDraftMessages llm sid) = Some sid"
| "target (OpGenerateDraftSummary llm sid) = Some sid"
| "target (OpStartHTTPSession rag llm req) = None"

text \<open>
  The statuses in which an operation is accepted: the status test each method makes after
  loading the session. \<^verbatim>\<open>SetWaitingForAnswersStatus\<close> and \<^verbatim>\<open>UpdateSessionStatus\<close> make
  no test.
\<close>

fun required :: "EngineOp \<Rightarrow> SessionStatus set" where
  "required OpStartSession = {}"
| "required (OpSubmitTextUserGoal sid goal) = {SessionStatusAskUserGoal}"
| "required (OpSubmitAudioUserGoal asr sid) = {SessionStatusAskUserGoal}"
| "required (OpSubmitRAGProjectContext rag sid pid) = {SessionStatusSelectOrCreateProject}"
| "required (OpSubmitTextUserProjectContext sid qs as) = {SessionStatusAskUserContext}"
| "required (OpSubmitAudioUserProjectContext asr sid qs) = {SessionStatusAskUserContext}"
| "required (OpSetSessionType sid ty) = {SessionStatusChooseMode}"
| "required (OpStartManualContext sid) = {SessionStatusSelectOrCreateProject}"
| "required (OpRestartModeSelection sid) = {SessionStatusInterviewInfo, SessionStatusDraftInfo}"
| "required (OpRestartProjectSelection sid) = {SessionStatusChooseMode}"
| "required (OpStartDraftCollecting sid) = {SessionStatusDraftInfo}"
| "required (OpLoadSessionQuestions llm sid) = {SessionStatusInterviewInfo}"
| "required (OpSkipAnswer sid qid) = {SessionStatusWaitingForAnswers}"
| "required (OpSubmitTextAnswer sid qid a) = {SessionStatusWaitingForAnswers}"
| "required (OpSubmitAudioAnswer asr sid qid) = {SessionStatusWaitingForAnswers}"
| "required (OpSubmitHTTPAudioAnswer file asr sid qid) = {SessionStatusWaitingForAnswers}"
| "required (OpSkipSkipedQuestion sid qid) = {SessionStatusWaitingForAnswers}"
| "required (OpSetWaitingForAnswersStatus sid) = UNIV"
| "required (OpValidateAnswers llm sid)
     = {SessionStatusValidating, SessionStatusWaitingForAnswers}"
| "required (OpGenerateSummary llm sid)
     = {SessionStatusGeneratingRequirements, SessionStatusWaitingForAnswers}"
| "required (OpCancelSession sid) = - {SessionStatusDone, SessionStatusCanceled}"
| "required (OpUpdateSessionStatus sid st) = UNIV"
| "required (OpAddDraftMessage sid t) = {SessionStatusDraftCollecting}"
| "required (OpAddAudioDraftMessage asr sid) = {SessionStatusDraftCollecting}"
| "required (OpValidateDraftMessages llm sid)
     = {SessionStatusDraftCollecting, SessionStatusWaitingForAnswers, SessionStatusValidating}"
| "required (OpGenerateDraftSummary llm sid)
     = {SessionStatusGeneratingRequirements, SessionStatusWaitingForAnswers}"
| "required (OpStartHTTPSession rag llm req) = {}"

text \<open>The statuses an operation can write to the session it is called for.\<close>

fun writes :: "EngineOp \<Rightarrow> SessionStatus set" where
  "writes OpStartSession = {}"
| "writes (OpSubmitTextUserGoal sid goal) = {SessionStatusSelectOrCreateProject}"
| "writes (OpSubmitAudioUserGoal asr sid) = {SessionStatusSelectOrCreateProject}"
| "writes (OpSubmitRAGProjectContext rag sid pid) = {SessionStatusChooseMode}"
| "writes (OpSubmitTextUserProjectContext sid qs as) = {SessionStatusChooseMode}"
| "writes (OpSubmitAudioUserProjectContext asr sid qs) = {SessionStatusChooseMode}"
| "writes (OpSetSessionType sid ty) = {SessionStatusInterviewInfo, SessionStatusDraftInfo}"
| "writes (OpStartManualContext sid) = {SessionStatusAskUserContext}"
| "writes (OpRestartModeSelection sid) = {SessionStatusChooseMode}"
| "writes (OpRestartProjectSelection sid) = {SessionStatusSelectOrCreateProject}"
| "writes (OpStartDraftCollecting sid) = {SessionStatusDraftCollecting}"
| "writes (OpLoadSessionQuestions llm sid) = {SessionStatusWaitingForAnswers}"
| "writes (OpSkipAnswer sid qid) = {SessionStatusValidating}"
| "writes (OpSubmitTextAnswer sid qid a) = {SessionStatusValidating}"
| "writes (OpSubmitAudioAnswer asr sid qid) = {SessionStatusValidating}"
| "writes (OpSubmitHTTPAudioAnswer file asr sid qid) = {SessionStatusValidating}"
| "writes (OpSkipSkipedQuestion sid qid) = {SessionStatusValidating}"
| "writes (OpSetWaitingForAnswersStatus sid) = {SessionStatusWaitingForAnswers}"
| "writes (OpValidateAnswers llm sid)
     = {SessionStatusGeneratingRequirements, SessionStatusWaitingForAnswers}"
| "writes (OpGenerateSummary llm sid) = {SessionStatusDone}"
| "writes (OpCancelSession sid) = {SessionStatusCanceled}"
| "writes (OpUpdateSessionStatus sid st) = {st}"
| "writes (OpAddDraftMessage sid t) = {}"
| "writes (OpAddAudioDraftMessage asr sid) = {}"
| "writes (OpValidateDraftMessages llm sid)
     = {SessionStatusValidating, SessionStatusGeneratingRequirements,
        SessionStatusWaitingForAnswers}"
| "writes (OpGenerateDraftSummary llm sid) = {SessionStatusDone}"
| "writes (OpStartHTTPSession rag llm req) = {}"

text \<open>The status in which an operation creates a session.\<close>

fun initialStatus :: "EngineOp \<Rightarrow> SessionStatus set" where
  "initialStatus OpStartSession = {SessionStatusAskUserGoal}"
| "initialStatus (OpStartHTTPSession rag llm req) = {SessionStatusWaitingForAnswers}"
| "initialStatus _ = {}"

fun unguarded :: "EngineOp \<Rightarrow> bool" where
  "unguarded (OpSetWaitingForAnswersStatus sid) = True"
| "unguarded (OpUpdateSessionStatus sid st) = True"
| "unguarded _ = False"

text \<open>The answer text a caller passes to \<^verbatim>\<open>SubmitTextAnswer\<close>.\<close>

fun answerText :: "EngineOp \<Rightarrow> string option" where
  "answerText (OpSubmitTextAnswer sid qid a) = Some a"
| "answerText _ = None"

text \<open>
  What one operation called for session \<open>sid\<close> may do to the statuses: every session
  that exists still exists, and its status is the same or, for \<open>sid\<close> in a status of
  \<open>Req\<close>, a status of \<open>Tgt\<close>; a session that appears has a status of \<open>Ini\<close>.
\<close>

definition statusStep ::
  "uuid option \<Rightarrow> SessionStatus set \<Rightarrow> SessionStatus set \<Rightarrow> SessionStatus set \<Rightarrow> DB \<Rightarrow> DB \<Rightarrow> bool" where
  "statusStep tgt Req Tgt Ini db db' \<longleftrightarrow>
     (\<forall>x. case statusOf db x of
            Some st \<Rightarrow> (\<exists>st'. statusOf db' x = Some st'
                          \<and> (st' = st \<or> tgt = Some x \<and> st \<in> Req \<and> st' \<in> Tgt))
          | None \<Rightarrow> statusOf db' x = None \<or> (\<exists>st' \<in> Ini. statusOf db' x = Some st'))"

text \<open>
  What one operation may do to the question rows: append unanswered rows, or run the
  answer update (with a non-empty text, unless \<open>emp\<close>), or run the skip update.
\<close>

definition questionsEffect :: "bool \<Rightarrow> DB \<Rightarrow> DB \<Rightarrow> bool" where
  "questionsEffect emp db db' \<longleftrightarrow>
     (\<exists>new. iteration_questions db' = iteration_questions db @ new
        \<and> (\<forall>q \<in> set new. q_Status q = AnswerStatusUnanswered \<and> q_Answer q = None))
     \<or> (\<exists>qid a. (emp \<or> a \<noteq> [])
          \<and> iteration_questions db'
              = iteration_questions (fst (QuestionPostgres_UpdateQuestionAnswer qid a db)))
     \<or> (\<exists>qid. iteration_questions db'
              = iteration_questions (fst (QuestionPostgres_SkipQuestion qid db)))"

text \<open>
  The effect of one run \<open>p\<close> of an operation called for session \<open>sid\<close>, accepted in the
  statuses \<open>Req\<close> and writing statuses of \<open>Tgt\<close>.
\<close>

definition guardedEffect ::
  "bool \<Rightarrow> uuid \<Rightarrow> SessionStatus set \<Rightarrow> SessionStatus set \<Rightarrow> DB \<Rightarrow> DB \<times> (error + 'a) \<Rightarrow> bool" where
  "guardedEffect emp sid Req Tgt db p \<longleftrightarrow>
     statusStep (Some sid) Req Tgt {} db (fst p)
     \<and> questionsEffect emp db (fst p)
     \<and> clock (fst p) = clock db
     \<and> (\<forall>st. statusOf db sid = Some st \<longrightarrow> (\<exists>y. snd p = Inr y) \<longrightarrow> st \<in> Req)"

section \<open>Basic facts\<close>

lemma bindErr_Inl [simp]: "bindErr (db, Inl e) msg rest = (db, Inl (wrapErr msg e))"
  by (simp add: bindErr_def)

lemma bindErr_Inr [simp]: "bindErr (db, Inr x) msg rest = rest x db"
  by (simp add: bindErr_def)

lemma int32_id: "- 2147483648 \<le> x \<Longrightarrow> x \<le> 2147483647 \<Longrightarrow> int32 x = x"
  unfolding int32_def by (rule signed_take_bit_int_eq_self) simp_all

section \<open>What the save loops leave unchanged\<close>

lemma saveBlockQuestions_frame:
  "saveBlockQuestions iid qIdx qs acc db = (db', r) \<Longrightarrow>
     sessions db' = sessions db \<and> session_iterations db' = session_iterations db
     \<and> llm_calls db' = llm_calls db \<and> session_messages db' = session_messages db
     \<and> projects db' = projects db \<and> clock db' = clock db
     \<and> (\<exists>gos. r = Inr gos)
     \<and> (\<exists>rows. iteration_questions db' = iteration_questions db @ rows
            \<and> (\<forall>q \<in> set rows. q_Status q = AnswerStatusUnanswered \<and> q_Answer q = None))"
proof (induction qs arbitrary: qIdx acc db)
  case Nil
  then show ?case by auto
next
  case (Cons q rest)
  from Cons.prems obtain db2 question where
    rec: "saveBlockQuestions iid (qIdx + 1) rest (acc @ [question]) db2 = (db', r)"
    and fr: "sessions db2 = sessions db" "session_iterations db2 = session_iterations db"
      "llm_calls db2 = llm_calls db" "session_messages db2 = session_messages db"
      "projects db2 = projects db" "clock db2 = clock db"
    and qs: "\<exists>row. iteration_questions db2 = iteration_questions db @ [row]
               \<and> q_Status row = AnswerStatusUnanswered \<and> q_Answer row = None"
    by (auto simp: uuid_New_def QuestionPostgres_CreateQuestion_def Let_def)
  from Cons.IH [OF rec] fr qs show ?case by auto
qed

lemma CreateIteration_frame:
  "IterationPostgres_CreateIteration it db = (db', r) \<Longrightarrow>
     sessions db' = sessions db \<and> iteration_questions db' = iteration_questions db
     \<and> llm_calls db' = llm_calls db \<and> session_messages db' = session_messages db
     \<and> projects db' = projects db \<and> clock db' = clock db
     \<and> ((\<exists>e. r = Inl e) \<and> session_iterations db' = session_iterations db
        \<or> (\<exists>row. r = Inr row \<and> session_iterations db' = session_iterations db @ [row]
              \<and> it_SessionID row = it_SessionID it \<and> it_Title row = it_Title it
              \<and> it_ID row = it_ID it))"
  by (auto simp: IterationPostgres_CreateIteration_def Let_def split: if_splits)

lemma saveBlocks_frame:
  "saveBlocks sid maxN idx blocks acc db = (db', r) \<Longrightarrow>
     sessions db' = sessions db
     \<and> llm_calls db' = llm_calls db \<and> session_messages db' = session_messages db
     \<and> projects db' = projects db \<and> clock db' = clock db
     \<and> (\<exists>its. session_iterations db' = session_iterations db @ its
            \<and> length its \<le> length blocks
            \<and> (\<forall>r \<in> set its. it_SessionID r = sid \<and> it_Title r \<in> qb_Title ` set blocks)
            \<and> (\<forall>dtos. r = Inr dtos \<longrightarrow> length dtos = length acc + length blocks
                   \<and> length its = length blocks))
     \<and> (\<exists>rows. iteration_questions db' = iteration_questions db @ rows
            \<and> (\<forall>q \<in> set rows. q_Status q = AnswerStatusUnanswered \<and> q_Answer q = None))"
proof (induction blocks arbitrary: idx acc db)
  case Nil
  then show ?case by auto
next
  case (Cons block rest)
  let ?db1 = "db\<lparr>uuid_next := Suc (uuid_next db)\<rparr>"
  let ?it = "\<lparr>it_ID = uuid_next db, it_SessionID = sid, it_IterationNumber = maxN + idx + 1,
               it_Title = qb_Title block, it_CreatedAt = 0\<rparr>"
  obtain db2 r2 where c: "IterationPostgres_CreateIteration ?it ?db1 = (db2, r2)"
    by (cases "IterationPostgres_CreateIteration ?it ?db1")
  note f2 = CreateIteration_frame [OF c]
  show ?case
  proof (cases r2)
    case (Inl e)
    with Cons.prems c f2 show ?thesis
      by (auto simp: uuid_New_def Let_def)
  next
    case (Inr saved)
    obtain db3 r3 where i: "saveBlockQuestions (it_ID saved) 0 (qb_Questions block) [] db2 = (db3, r3)"
      by (cases "saveBlockQuestions (it_ID saved) 0 (qb_Questions block) [] db2")
    note f3 = saveBlockQuestions_frame [OF i]
    from f3 obtain gos where r3: "r3 = Inr gos" by blast
    from Cons.prems c Inr i r3
    have rec: "saveBlocks sid maxN (idx + 1) rest (acc @ [questionsToIterationDTO saved gos]) db3
                 = (db', r)"
      by (simp add: uuid_New_def Let_def)
    note ih = Cons.IH [OF rec]
    from f2 Inr obtain row where
      row: "session_iterations db2 = session_iterations ?db1 @ [row]" "it_SessionID row = sid"
        "it_Title row = qb_Title block"
      by auto
    from ih obtain its where
      its: "session_iterations db' = session_iterations db3 @ its" "length its \<le> length rest"
        "\<forall>r \<in> set its. it_SessionID r = sid \<and> it_Title r \<in> qb_Title ` set rest"
        "\<forall>dtos. r = Inr dtos \<longrightarrow> length dtos = length (acc @ [questionsToIterationDTO saved gos]) + length rest
                   \<and> length its = length rest"
      by blast
    from ih obtain rows where
      rows: "iteration_questions db' = iteration_questions db3 @ rows"
        "\<forall>q \<in> set rows. q_Status q = AnswerStatusUnanswered \<and> q_Answer q = None"
      by blast
    from f3 obtain rows0 where
      rows0: "iteration_questions db3 = iteration_questions db2 @ rows0"
        "\<forall>q \<in> set rows0. q_Status q = AnswerStatusUnanswered \<and> q_Answer q = None"
      by blast
    have A: "sessions db' = sessions db \<and> llm_calls db' = llm_calls db
          \<and> session_messages db' = session_messages db \<and> projects db' = projects db
          \<and> clock db' = clock db"
      using ih f3 f2 by simp
    have B: "session_iterations db' = session_iterations db @ (row # its)"
      using its(1) f3 row(1) by simp
    have C: "iteration_questions db' = iteration_questions db @ (rows0 @ rows)"
      using rows(1) rows0(1) f2 by simp
    show ?thesis
      apply (intro conjI)
      using A apply simp_all
       apply (rule exI [of _ "row # its"])
      using B its row apply auto[1]
      apply (rule exI [of _ "rows0 @ rows"])
      using C rows rows0 by auto
  qed
qed

lemma saveQuestionsToDatabase_frame:
  "saveQuestionsToDatabase sid blocks db = (db', r) \<Longrightarrow>
     sessions db' = sessions db
     \<and> llm_calls db' = llm_calls db \<and> session_messages db' = session_messages db
     \<and> projects db' = projects db \<and> clock db' = clock db
     \<and> (\<exists>its. session_iterations db' = session_iterations db @ its
            \<and> length its \<le> length blocks
            \<and> (\<forall>r \<in> set its. it_SessionID r = sid \<and> it_Title r \<in> qb_Title ` set blocks)
            \<and> (\<forall>dtos. r = Inr dtos \<longrightarrow> length dtos = length blocks \<and> length its = length blocks))
     \<and> (\<exists>rows. iteration_questions db' = iteration_questions db @ rows
            \<and> (\<forall>q \<in> set rows. q_Status q = AnswerStatusUnanswered \<and> q_Answer q = None))"
  using saveBlocks_frame [of sid "storedMaxIterationNumber db sid" 0 blocks "[]" db db' r]
  by (simp add: saveQuestionsToDatabase_def IterationPostgres_GetMaxIterationNumber_def)

section \<open>The effect of each operation on statuses and question rows\<close>

lemmas io_defs = bindErr_def ok_def fail_def Let_def

lemmas session_repo_defs =
  SessionPostgres_GetSessionByID_def update_session_row_def
  SessionPostgres_UpdateSessionStatus_def SessionPostgres_UpdateSessionIteration_def
  SessionPostgres_UpdateSessionProjectContext_def SessionPostgres_UpdateSessionRAGProjectContext_def
  SessionPostgres_UpdateSessionUserGoal_def SessionPostgres_UpdateSessionType_def
  SessionPostgres_UpdateSessionResult_def ProjectPostgres_Get_def

lemma questionsEffect_same:
  "iteration_questions db' = iteration_questions db \<Longrightarrow> questionsEffect emp db db'"
  by (simp add: questionsEffect_def)

lemma questionsEffect_append:
  "iteration_questions db' = iteration_questions db @ new
     \<Longrightarrow> \<forall>q \<in> set new. q_Status q = AnswerStatusUnanswered \<and> q_Answer q = None
     \<Longrightarrow> questionsEffect emp db db'"
  unfolding questionsEffect_def by blast

lemma questionsEffect_skip:
  "iteration_questions db' = iteration_questions (fst (QuestionPostgres_SkipQuestion qid db))
     \<Longrightarrow> questionsEffect emp db db'"
  unfolding questionsEffect_def by blast

lemma questionsEffect_answer:
  "iteration_questions db' = iteration_questions (fst (QuestionPostgres_UpdateQuestionAnswer qid a db))
     \<Longrightarrow> emp \<or> a \<noteq> [] \<Longrightarrow> questionsEffect emp db db'"
  unfolding questionsEffect_def by blast

lemmas effect_defs = guardedEffect_def statusStep_def statusOf_def

lemma transcribeAudio_cases:
  "transcribeAudio asr db = (db, Inl (wrapErr ''transcribe audio'' (projl asr))) \<and> isl asr
   \<or> transcribeAudio asr db = (db, Inl ''transcription is empty'') \<and> asr = Inr []
   \<or> (\<exists>t. t \<noteq> [] \<and> asr = Inr t \<and> transcribeAudio asr db = (db, Inr t))"
  by (cases asr) (auto simp: transcribeAudio_def)

lemma guardedEffect_fail:
  "sessions db sid = Some s \<Longrightarrow> guardedEffect emp sid Req Tgt db (db, Inl e)"
  "sessions db sid = None \<Longrightarrow> guardedEffect emp sid Req Tgt db (db, r)"
  by (auto simp: effect_defs intro!: questionsEffect_same split: option.splits)

lemma guardedEffectI:
  assumes "sessions db sid = Some s" and "s_Status s \<in> Req"
    and "questionsEffect emp db db'" and "clock db' = clock db"
    and "sessions db' = sessions db
         \<or> (\<exists>s'. sessions db' = (sessions db)(sid \<mapsto> s') \<and> (s_Status s' \<in> Tgt \<or> s_Status s' = s_Status s))"
  shows "guardedEffect emp sid Req Tgt db (db', r)"
  using assms by (auto simp: effect_defs split: option.splits)

lemma collectAllAnswers_db: "fst (collectAllAnswers sid db) = db"
  by (simp add: collectAllAnswers_def io_defs QuestionPostgres_ListQuestionsBySession_def)


lemma SubmitTextUserGoal_effect:
  "guardedEffect emp sid {SessionStatusAskUserGoal} {SessionStatusSelectOrCreateProject} db
     (SubmitTextUserGoal sid goal db)"
proof (cases "sessions db sid")
  case None
  then show ?thesis
    by (simp add: SubmitTextUserGoal_def io_defs SessionPostgres_GetSessionByID_def guardedEffect_fail)
next
  case (Some s)
  show ?thesis
  proof (cases "s_Status s \<in> {SessionStatusAskUserGoal}")
    case False
    with Some show ?thesis
      by (auto simp: SubmitTextUserGoal_def io_defs SessionPostgres_GetSessionByID_def guardedEffect_fail)
  next
    case True
    obtain db' r where run: "SubmitTextUserGoal sid goal db = (db', r)"
      by (cases "SubmitTextUserGoal sid goal db")
    have "iteration_questions db' = iteration_questions db \<and> clock db' = clock db
        \<and> (sessions db' = sessions db
         \<or> (\<exists>s'. sessions db' = (sessions db)(sid \<mapsto> s')
               \<and> (s_Status s' \<in> {SessionStatusSelectOrCreateProject} \<or> s_Status s' = s_Status s)))"
      using run Some True 
      by (auto simp: SubmitTextUserGoal_def io_defs session_repo_defs 
          split: if_splits sum.splits option.splits SessionType.splits)
    then show ?thesis
      unfolding run using Some True
      by (intro guardedEffectI [of db sid s]) (auto intro: questionsEffect_same)
  qed
qed

lemma SubmitRAGProjectContext_effect:
  "guardedEffect emp sid {SessionStatusSelectOrCreateProject} {SessionStatusChooseMode} db
     (SubmitRAGProjectContext rag sid pid db)"
proof (cases "sessions db sid")
  case None
  then show ?thesis
    by (simp add: SubmitRAGProjectContext_def io_defs SessionPostgres_GetSessionByID_def guardedEffect_fail)
next
  case (Some s)
  show ?thesis
  proof (cases "s_Status s \<in> {SessionStatusSelectOrCreateProject}")
    case False
    with Some show ?thesis
      by (auto simp: SubmitRAGProjectContext_def io_defs SessionPostgres_GetSessionByID_def guardedEffect_fail)
  next
    case True
    obtain db' r where run: "SubmitRAGProjectContext rag sid pid db = (db', r)"
      by (cases "SubmitRAGProjectContext rag sid pid db")
    have "iteration_questions db' = iteration_questions db \<and> clock db' = clock db
        \<and> (sessions db' = sessions db
         \<or> (\<exists>s'. sessions db' = (sessions db)(sid \<mapsto> s')
               \<and> (s_Status s' \<in> {SessionStatusChooseMode} \<or> s_Status s' = s_Status s)))"
      using run Some True 
      by (auto simp: SubmitRAGProjectContext_def io_defs session_repo_defs 
          split: if_splits sum.splits option.splits SessionType.splits)
    then show ?thesis
      unfolding run using Some True
      by (intro guardedEffectI [of db sid s]) (auto intro: questionsEffect_same)
  qed
qed

lemma SubmitTextUserProjectContext_effect:
  "guardedEffect emp sid {SessionStatusAskUserContext} {SessionStatusChooseMode} db
     (SubmitTextUserProjectContext sid qs as db)"
proof (cases "sessions db sid")
  case None
  then show ?thesis
    by (simp add: SubmitTextUserProjectContext_def io_defs SessionPostgres_GetSessionByID_def guardedEffect_fail)
next
  case (Some s)
  show ?thesis
  proof (cases "s_Status s \<in> {SessionStatusAskUserContext}")
    case False
    with Some show ?thesis
      by (auto simp: SubmitTextUserProjectContext_def io_defs SessionPostgres_GetSessionByID_def guardedEffect_fail)
  next
    case True
    obtain db' r where run: "SubmitTextUserProjectContext sid qs as db = (db', r)"
      by (cases "SubmitTextUserProjectContext sid qs as db")
    have "iteration_questions db' = iteration_questions db \<and> clock db' = clock db
        \<and> (sessions db' = sessions db
         \<or> (\<exists>s'. sessions db' = (sessions db)(sid \<mapsto> s')
               \<and> (s_Status s' \<in> {SessionStatusChooseMode} \<or> s_Status s' = s_Status s)))"
      using run Some True 
      by (auto simp: SubmitTextUserProjectContext_def io_defs session_repo_defs 
          split: if_splits sum.splits option.splits SessionType.splits)
    then show ?thesis
      unfolding run using Some True
      by (intro guardedEffectI [of db sid s]) (auto intro: questionsEffect_same)
  qed
qed

lemma SetSessionType_effect:
  "guardedEffect emp sid {SessionStatusChooseMode} {SessionStatusInterviewInfo, SessionStatusDraftInfo} db
     (SetSessionType sid ty db)"
proof (cases "sessions db sid")
  case None
  then show ?thesis
    by (simp add: SetSessionType_def io_defs SessionPostgres_GetSessionByID_def guardedEffect_fail)
next
  case (Some s)
  show ?thesis
  proof (cases "s_Status s \<in> {SessionStatusChooseMode}")
    case False
    with Some show ?thesis
      by (auto simp: SetSessionType_def io_defs SessionPostgres_GetSessionByID_def guardedEffect_fail)
  next
    case True
    obtain db' r where run: "SetSessionType sid ty db = (db', r)"
      by (cases "SetSessionType sid ty db")
    have "iteration_questions db' = iteration_questions db \<and> clock db' = clock db
        \<and> (sessions db' = sessions db
         \<or> (\<exists>s'. sessions db' = (sessions db)(sid \<mapsto> s')
               \<and> (s_Status s' \<in> {SessionStatusInterviewInfo, SessionStatusDraftInfo} \<or> s_Status s' = s_Status s)))"
      using run Some True 
      by (auto simp: SetSessionType_def io_defs session_repo_defs 
          split: if_splits sum.splits option.splits SessionType.splits)
    then show ?thesis
      unfolding run using Some True
      by (intro guardedEffectI [of db sid s]) (auto intro: questionsEffect_same)
  qed
qed

lemma StartManualContext_effect:
  "guardedEffect emp sid {SessionStatusSelectOrCreateProject} {SessionStatusAskUserContext} db
     (StartManualContext sid db)"
proof (cases "sessions db sid")
  case None
  then show ?thesis
    by (simp add: StartManualContext_def io_defs SessionPostgres_GetSessionByID_def guardedEffect_fail)
next
  case (Some s)
  show ?thesis
  proof (cases "s_Status s \<in> {SessionStatusSelectOrCreateProject}")
    case False
    with Some show ?thesis
      by (auto simp: StartManualContext_def io_defs SessionPostgres_GetSessionByID_def guardedEffect_fail)
  next
    case True
    obtain db' r where run: "StartManualContext sid db = (db', r)"
      by (cases "StartManualContext sid db")
    have "iteration_questions db' = iteration_questions db \<and> clock db' = clock db
        \<and> (sessions db' = sessions db
         \<or> (\<exists>s'. sessions db' = (sessions db)(sid \<mapsto> s')
               \<and> (s_Status s' \<in> {SessionStatusAskUserContext} \<or> s_Status s' = s_Status s)))"
      using run Some True 
      by (auto simp: StartManualContext_def io_defs session_repo_defs 
          split: if_splits sum.splits option.splits SessionType.splits)
    then show ?thesis
      unfolding run using Some True
      by (intro guardedEffectI [of db sid s]) (auto intro: questionsEffect_same)
  qed
qed

lemma RestartModeSelection_effect:
  "guardedEffect emp sid {SessionStatusInterviewInfo, SessionStatusDraftInfo} {SessionStatusChooseMode} db
     (RestartModeSelection sid db)"
proof (cases "sessions db sid")
  case None
  then show ?thesis
    by (simp add: RestartModeSelection_def io_defs SessionPostgres_GetSessionByID_def guardedEffect_fail)
next
  case (Some s)
  show ?thesis
  proof (cases "s_Status s \<in> {SessionStatusInterviewInfo, SessionStatusDraftInfo}")
    case False
    with Some show ?thesis
      by (auto simp: RestartModeSelection_def io_defs SessionPostgres_GetSessionByID_def guardedEffect_fail)
  next
    case True
    obtain db' r where run: "RestartModeSelection sid db = (db', r)"
      by (cases "RestartModeSelection sid db")
    have "iteration_questions db' = iteration_questions db \<and> clock db' = clock db
        \<and> (sessions db' = sessions db
         \<or> (\<exists>s'. sessions db' = (sessions db)(sid \<mapsto> s')
               \<and> (s_Status s' \<in> {SessionStatusChooseMode} \<or> s_Status s' = s_Status s)))"
      using run Some True 
      by (auto simp: RestartModeSelection_def io_defs session_repo_defs 
          split: if_splits sum.splits option.splits SessionType.splits)
    then show ?thesis
      unfolding run using Some True
      by (intro guardedEffectI [of db sid s]) (auto intro: questionsEffect_same)
  qed
qed

lemma RestartProjectSelection_effect:
  "guardedEffect emp sid {SessionStatusChooseMode} {SessionStatusSelectOrCreateProject} db
     (RestartProjectSelection sid db)"
proof (cases "sessions db sid")
  case None
  then show ?thesis
    by (simp add: RestartProjectSelection_def io_defs SessionPostgres_GetSessionByID_def guardedEffect_fail)
next
  case (Some s)
  show ?thesis
  proof (cases "s_Status s \<in> {SessionStatusChooseMode}")
    case False
    with Some show ?thesis
      by (auto simp: RestartProjectSelection_def io_defs SessionPostgres_GetSessionByID_def guardedEffect_fail)
  next
    case True
    obtain db' r where run: "RestartProjectSelection sid db = (db', r)"
      by (cases "RestartProjectSelection sid db")
    have "iteration_questions db' = iteration_questions db \<and> clock db' = clock db
        \<and> (sessions db' = sessions db
         \<or> (\<exists>s'. sessions db' = (sessions db)(sid \<mapsto> s')
               \<and> (s_Status s' \<in> {SessionStatusSelectOrCreateProject} \<or> s_Status s' = s_Status s)))"
      using run Some True 
      by (auto simp: RestartProjectSelection_def io_defs session_repo_defs 
          split: if_splits sum.splits option.splits SessionType.splits)
    then show ?thesis
      unfolding run using Some True
      by (intro guardedEffectI [of db sid s]) (auto intro: questionsEffect_same)
  qed
qed

lemma StartDraftCollecting_effect:
  "guardedEffect emp sid {SessionStatusDraftInfo} {SessionStatusDraftCollecting} db
     (StartDraftCollecting sid db)"
proof (cases "sessions db sid")
  case None
  then show ?thesis
    by (simp add: StartDraftCollecting_def io_defs SessionPostgres_GetSessionByID_def guardedEffect_fail)
next
  case (Some s)
  show ?thesis
  proof (cases "s_Status s \<in> {SessionStatusDraftInfo}")
    case False
    with Some show ?thesis
      by (auto simp: StartDraftCollecting_def io_defs SessionPostgres_GetSessionByID_def guardedEffect_fail)
  next
    case True
    obtain db' r where run: "StartDraftCollecting sid db = (db', r)"
      by (cases "StartDraftCollecting sid db")
    have "iteration_questions db' = iteration_questions db \<and> clock db' = clock db
        \<and> (sessions db' = sessions db
         \<or> (\<exists>s'. sessions db' = (sessions db)(sid \<mapsto> s')
               \<and> (s_Status s' \<in> {SessionStatusDraftCollecting} \<or> s_Status s' = s_Status s)))"
      using run Some True 
      by (auto simp: StartDraftCollecting_def io_defs session_repo_defs 
          split: if_splits sum.splits option.splits SessionType.splits)
    then show ?thesis
      unfolding run using Some True
      by (intro guardedEffectI [of db sid s]) (auto intro: questionsEffect_same)
  qed
qed

lemma SetWaitingForAnswersStatus_effect:
  "guardedEffect emp sid UNIV {SessionStatusWaitingForAnswers} db
     (SetWaitingForAnswersStatus sid db)"
proof (cases "sessions db sid")
  case None
  then show ?thesis
    by (simp add: SetWaitingForAnswersStatus_def io_defs SessionPostgres_GetSessionByID_def guardedEffect_fail)
next
  case (Some s)
  show ?thesis
  proof (cases "s_Status s \<in> UNIV")
    case False
    with Some show ?thesis
      by (auto simp: SetWaitingForAnswersStatus_def io_defs SessionPostgres_GetSessionByID_def guardedEffect_fail)
  next
    case True
    obtain db' r where run: "SetWaitingForAnswersStatus sid db = (db', r)"
      by (cases "SetWaitingForAnswersStatus sid db")
    have "iteration_questions db' = iteration_questions db \<and> clock db' = clock db
        \<and> (sessions db' = sessions db
         \<or> (\<exists>s'. sessions db' = (sessions db)(sid \<mapsto> s')
               \<and> (s_Status s' \<in> {SessionStatusWaitingForAnswers} \<or> s_Status s' = s_Status s)))"
      using run Some True 
      by (auto simp: SetWaitingForAnswersStatus_def io_defs session_repo_defs 
          split: if_splits sum.splits option.splits SessionType.splits)
    then show ?thesis
      unfolding run using Some True
      by (intro guardedEffectI [of db sid s]) (auto intro: questionsEffect_same)
  qed
qed

lemma UpdateSessionStatus_effect:
  "guardedEffect emp sid UNIV {st} db
     (SessionUsecase_UpdateSessionStatus sid st db)"
proof (cases "sessions db sid")
  case None
  then show ?thesis
    by (simp add: SessionUsecase_UpdateSessionStatus_def io_defs SessionPostgres_GetSessionByID_def guardedEffect_fail)
next
  case (Some s)
  show ?thesis
  proof (cases "s_Status s \<in> UNIV")
    case False
    with Some show ?thesis
      by (auto simp: SessionUsecase_UpdateSessionStatus_def io_defs SessionPostgres_GetSessionByID_def guardedEffect_fail)
  next
    case True
    obtain db' r where run: "SessionUsecase_UpdateSessionStatus sid st db = (db', r)"
      by (cases "SessionUsecase_UpdateSessionStatus sid st db")
    have "iteration_questions db' = iteration_questions db \<and> clock db' = clock db
        \<and> (sessions db' = sessions db
         \<or> (\<exists>s'. sessions db' = (sessions db)(sid \<mapsto> s')
               \<and> (s_Status s' \<in> {st} \<or> s_Status s' = s_Status s)))"
      using run Some True 
      by (auto simp: SessionUsecase_UpdateSessionStatus_def io_defs session_repo_defs 
          split: if_splits sum.splits option.splits SessionType.splits)
    then show ?thesis
      unfolding run using Some True
      by (intro guardedEffectI [of db sid s]) (auto intro: questionsEffect_same)
  qed
qed

lemma CancelSession_effect:
  "guardedEffect emp sid (- {SessionStatusDone, SessionStatusCanceled}) {SessionStatusCanceled} db
     (CancelSession sid db)"
proof (cases "sessions db sid")
  case None
  then show ?thesis
    by (simp add: CancelSession_def io_defs SessionPostgres_GetSessionByID_def guardedEffect_fail)
next
  case (Some s)
  show ?thesis
  proof (cases "s_Status s \<in> (- {SessionStatusDone, SessionStatusCanceled})")
    case False
    with Some show ?thesis
      by (auto simp: CancelSession_def io_defs SessionPostgres_GetSessionByID_def guardedEffect_fail)
  next
    case True
    obtain db' r where run: "CancelSession sid db = (db', r)"
      by (cases "CancelSession sid db")
    have "iteration_questions db' = iteration_questions db \<and> clock db' = clock db
        \<and> (sessions db' = sessions db
         \<or> (\<exists>s'. sessions db' = (sessions db)(sid \<mapsto> s')
               \<and> (s_Status s' \<in> {SessionStatusCanceled} \<or> s_Status s' = s_Status s)))"
      using run Some True 
      by (auto simp: CancelSession_def io_defs session_repo_defs 
          split: if_splits sum.splits option.splits SessionType.splits)
    then show ?thesis
      unfolding run using Some True
      by (intro guardedEffectI [of db sid s]) (auto intro: questionsEffect_same)
  qed
qed

lemma AddDraftMessage_effect:
  "guardedEffect emp sid {SessionStatusDraftCollecting} {} db
     (AddDraftMessage sid t db)"
proof (cases "sessions db sid")
  case None
  then show ?thesis
    by (simp add: AddDraftMessage_def io_defs SessionPostgres_GetSessionByID_def guardedEffect_fail)
next
  case (Some s)
  show ?thesis
  proof (cases "s_Status s \<in> {SessionStatusDraftCollecting}")
    case False
    with Some show ?thesis
      by (auto simp: AddDraftMessage_def io_defs SessionPostgres_GetSessionByID_def guardedEffect_fail)
  next
    case True
    obtain db' r where run: "AddDraftMessage sid t db = (db', r)"
      by (cases "AddDraftMessage sid t db")
    have "iteration_questions db' = iteration_questions db \<and> clock db' = clock db
        \<and> (sessions db' = sessions db
         \<or> (\<exists>s'. sessions db' = (sessions db)(sid \<mapsto> s')
               \<and> (s_Status s' \<in> {} \<or> s_Status s' = s_Status s)))"
      using run Some True 
      by (auto simp: AddDraftMessage_def io_defs session_repo_defs SessionMessagePostgres_CreateMessage_def invalidStatusForDraft_def
          split: if_splits sum.splits option.splits SessionType.splits)
    then show ?thesis
      unfolding run using Some True
      by (intro guardedEffectI [of db sid s]) (auto intro: questionsEffect_same)
  qed
qed

lemma GenerateSummary_effect:
  "guardedEffect emp sid {SessionStatusGeneratingRequirements, SessionStatusWaitingForAnswers} {SessionStatusDone} db
     (GenerateSummary llm sid db)"
proof (cases "sessions db sid")
  case None
  then show ?thesis
    by (simp add: GenerateSummary_def io_defs SessionPostgres_GetSessionByID_def guardedEffect_fail)
next
  case (Some s)
  show ?thesis
  proof (cases "s_Status s \<in> {SessionStatusGeneratingRequirements, SessionStatusWaitingForAnswers}")
    case False
    with Some show ?thesis
      by (auto simp: GenerateSummary_def io_defs SessionPostgres_GetSessionByID_def guardedEffect_fail)
  next
    case True
    obtain r1 where c: "collectAllAnswers sid db = (db, r1)"
      using collectAllAnswers_db [of sid db] by (cases "collectAllAnswers sid db") simp
    obtain db' r where run: "GenerateSummary llm sid db = (db', r)"
      by (cases "GenerateSummary llm sid db")
    have "iteration_questions db' = iteration_questions db \<and> clock db' = clock db
        \<and> (sessions db' = sessions db
         \<or> (\<exists>s'. sessions db' = (sessions db)(sid \<mapsto> s')
               \<and> (s_Status s' \<in> {SessionStatusDone} \<or> s_Status s' = s_Status s)))"
      using run Some True c
      by (auto simp: GenerateSummary_def io_defs session_repo_defs LLMConnector_call_def
          split: if_splits sum.splits option.splits SessionType.splits)
    then show ?thesis
      unfolding run using Some True
      by (intro guardedEffectI [of db sid s]) (auto intro: questionsEffect_same)
  qed
qed

lemma GenerateDraftSummary_effect:
  "guardedEffect emp sid {SessionStatusGeneratingRequirements, SessionStatusWaitingForAnswers} {SessionStatusDone} db
     (GenerateDraftSummary llm sid db)"
proof (cases "sessions db sid")
  case None
  then show ?thesis
    by (simp add: GenerateDraftSummary_def io_defs SessionPostgres_GetSessionByID_def guardedEffect_fail)
next
  case (Some s)
  show ?thesis
  proof (cases "s_Status s \<in> {SessionStatusGeneratingRequirements, SessionStatusWaitingForAnswers}")
    case False
    with Some show ?thesis
      by (auto simp: GenerateDraftSummary_def io_defs SessionPostgres_GetSessionByID_def guardedEffect_fail)
  next
    case True
    obtain r1 where c: "collectAllAnswers sid db = (db, r1)"
      using collectAllAnswers_db [of sid db] by (cases "collectAllAnswers sid db") simp
    obtain db' r where run: "GenerateDraftSummary llm sid db = (db', r)"
      by (cases "GenerateDraftSummary llm sid db")
    have "iteration_questions db' = iteration_questions db \<and> clock db' = clock db
        \<and> (sessions db' = sessions db
         \<or> (\<exists>s'. sessions db' = (sessions db)(sid \<mapsto> s')
               \<and> (s_Status s' \<in> {SessionStatusDone} \<or> s_Status s' = s_Status s)))"
      using run Some True c
      by (auto simp: GenerateDraftSummary_def io_defs session_repo_defs LLMConnector_call_def SessionMessagePostgres_GetSessionMessages_def
          split: if_splits sum.splits option.splits SessionType.splits)
    then show ?thesis
      unfolding run using Some True
      by (intro guardedEffectI [of db sid s]) (auto intro: questionsEffect_same)
  qed
qed

lemma SubmitAudioUserGoal_effect:
  "guardedEffect emp sid {SessionStatusAskUserGoal} {SessionStatusSelectOrCreateProject} db
     (SubmitAudioUserGoal asr sid db)"
  using transcribeAudio_cases [of asr db] SubmitTextUserGoal_effect
  by (cases "sessions db sid")
     (auto simp: SubmitAudioUserGoal_def io_defs SessionPostgres_GetSessionByID_def
       guardedEffect_fail)

lemma SubmitAudioUserProjectContext_effect:
  "guardedEffect emp sid {SessionStatusAskUserContext} {SessionStatusChooseMode} db
     (SubmitAudioUserProjectContext asr sid qs db)"
  using transcribeAudio_cases [of asr db] SubmitTextUserProjectContext_effect
  by (cases "sessions db sid")
     (auto simp: SubmitAudioUserProjectContext_def io_defs SessionPostgres_GetSessionByID_def
       guardedEffect_fail)

lemma AddAudioDraftMessage_effect:
  "guardedEffect emp sid {SessionStatusDraftCollecting} {} db (AddAudioDraftMessage asr sid db)"
  using transcribeAudio_cases [of asr db] AddDraftMessage_effect
  by (cases "sessions db sid")
     (auto simp: AddAudioDraftMessage_def io_defs SessionPostgres_GetSessionByID_def
       guardedEffect_fail invalidStatusForDraft_def)

lemma getCurrentIteration_frame:
  assumes "getCurrentIteration sid db = (db', r)"
  shows "iteration_questions db' = iteration_questions db
       \<and> session_iterations db' = session_iterations db
       \<and> clock db' = clock db \<and> llm_calls db' = llm_calls db
       \<and> (sessions db' = sessions db
          \<or> (\<exists>s. sessions db sid = Some s
                \<and> sessions db' = (sessions db)(sid \<mapsto> s\<lparr>s_CurrentIteration := s_CurrentIteration s + 1,
                                                         s_UpdatedAt := clock db\<rparr>)))"
  using assms
  by (auto simp: getCurrentIteration_def io_defs IterationPostgres_GetCurrentIteration_def
      IterationPostgres_GetNextIteration_def iteration_at_def
      QuestionPostgres_ListQuestionsByIteration_def session_repo_defs
      split: option.splits if_splits)


lemma SkipAnswer_effect:
  "guardedEffect emp sid {SessionStatusWaitingForAnswers} {SessionStatusValidating} db
     (SkipAnswer sid qid db)"
proof (cases "sessions db sid")
  case None
  then show ?thesis
    by (simp add: SkipAnswer_def io_defs SessionPostgres_GetSessionByID_def guardedEffect_fail)
next
  case (Some s)
  show ?thesis
  proof (cases "s_Status s \<in> {SessionStatusWaitingForAnswers}")
    case False
    with Some show ?thesis
      by (auto simp: SkipAnswer_def io_defs SessionPostgres_GetSessionByID_def guardedEffect_fail)
  next
    case True
    obtain db1 where u: "QuestionPostgres_SkipQuestion qid db = (db1, Inr ())"
      by (simp add: QuestionPostgres_SkipQuestion_def)
    have u1: "sessions db1 = sessions db" "clock db1 = clock db"
      using u by (auto simp: QuestionPostgres_SkipQuestion_def)
    have u2: "iteration_questions db1 = iteration_questions (fst (QuestionPostgres_SkipQuestion qid db))"
      by (simp add: u)
    obtain db2 r2 where g: "getCurrentIteration sid db1 = (db2, r2)"
      by (cases "getCurrentIteration sid db1")
    note f = getCurrentIteration_frame [OF g]
    obtain db' r where run: "SkipAnswer sid qid db = (db', r)"
      by (cases "SkipAnswer sid qid db")
    have "iteration_questions db' = iteration_questions db1 \<and> clock db' = clock db
        \<and> (sessions db' = sessions db
         \<or> (\<exists>s'. sessions db' = (sessions db)(sid \<mapsto> s')
               \<and> (s_Status s' \<in> {SessionStatusValidating} \<or> s_Status s' = s_Status s)))"
      using run Some True f u1
      by (auto simp: SkipAnswer_def io_defs u g session_repo_defs 
          split: if_splits sum.splits option.splits)
    then show ?thesis
      unfolding run u2 using Some True
      by (intro guardedEffectI [of db sid s]) (auto intro: questionsEffect_skip)
  qed
qed

lemma SubmitTextAnswer_effect:
  "guardedEffect (a = []) sid {SessionStatusWaitingForAnswers} {SessionStatusValidating} db
     (SubmitTextAnswer sid qid a db)"
proof (cases "sessions db sid")
  case None
  then show ?thesis
    by (simp add: SubmitTextAnswer_def io_defs SessionPostgres_GetSessionByID_def guardedEffect_fail)
next
  case (Some s)
  show ?thesis
  proof (cases "s_Status s \<in> {SessionStatusWaitingForAnswers}")
    case False
    with Some show ?thesis
      by (auto simp: SubmitTextAnswer_def io_defs SessionPostgres_GetSessionByID_def guardedEffect_fail)
  next
    case True
    obtain db1 where u: "QuestionPostgres_UpdateQuestionAnswer qid a db = (db1, Inr ())"
      by (simp add: QuestionPostgres_UpdateQuestionAnswer_def)
    have u1: "sessions db1 = sessions db" "clock db1 = clock db"
      using u by (auto simp: QuestionPostgres_UpdateQuestionAnswer_def)
    have u2: "iteration_questions db1 = iteration_questions (fst (QuestionPostgres_UpdateQuestionAnswer qid a db))"
      by (simp add: u)
    obtain db2 r2 where g: "getCurrentIteration sid db1 = (db2, r2)"
      by (cases "getCurrentIteration sid db1")
    note f = getCurrentIteration_frame [OF g]
    obtain db' r where run: "SubmitTextAnswer sid qid a db = (db', r)"
      by (cases "SubmitTextAnswer sid qid a db")
    have "iteration_questions db' = iteration_questions db1 \<and> clock db' = clock db
        \<and> (sessions db' = sessions db
         \<or> (\<exists>s'. sessions db' = (sessions db)(sid \<mapsto> s')
               \<and> (s_Status s' \<in> {SessionStatusValidating} \<or> s_Status s' = s_Status s)))"
      using run Some True f u1
      by (auto simp: SubmitTextAnswer_def io_defs u g session_repo_defs QuestionPostgres_GetUnansweredQuestions_def
          split: if_splits sum.splits option.splits)
    then show ?thesis
      unfolding run u2 using Some True
      by (intro guardedEffectI [of db sid s]) (auto intro: questionsEffect_answer)
  qed
qed


lemma SubmitAudioAnswer_effect:
  "guardedEffect False sid {SessionStatusWaitingForAnswers} {SessionStatusValidating} db
     (SubmitAudioAnswer asr sid qid db)"
proof -
  have t: "\<And>t. t \<noteq> [] \<Longrightarrow>
      guardedEffect False sid {SessionStatusWaitingForAnswers} {SessionStatusValidating} db
        (SubmitTextAnswer sid qid t db)"
    using SubmitTextAnswer_effect [of _ sid db qid] by (metis (full_types))
  show ?thesis
    using transcribeAudio_cases [of asr db] t
    by (cases "sessions db sid")
       (auto simp: SubmitAudioAnswer_def io_defs SessionPostgres_GetSessionByID_def
         guardedEffect_fail)
qed

lemma SubmitHTTPAudioAnswer_effect:
  "guardedEffect False sid {SessionStatusWaitingForAnswers} {SessionStatusValidating} db
     (SubmitHTTPAudioAnswer audioFile asr sid qid db)"
  using SubmitAudioAnswer_effect [of sid db asr qid]
  by (cases "sessions db sid"; cases audioFile)
     (auto simp: SubmitHTTPAudioAnswer_def io_defs SessionPostgres_GetSessionByID_def
       guardedEffect_fail)

lemma SkipSkipedQuestion_effect:
  "guardedEffect emp sid {SessionStatusWaitingForAnswers} {SessionStatusValidating} db
     (SkipSkipedQuestion sid qid db)"
proof (cases "sessions db sid")
  case None
  then show ?thesis
    by (simp add: SkipSkipedQuestion_def io_defs SessionPostgres_GetSessionByID_def guardedEffect_fail)
next
  case (Some s)
  show ?thesis
  proof (cases "s_Status s \<in> {SessionStatusWaitingForAnswers}")
    case False
    with Some show ?thesis
      by (auto simp: SkipSkipedQuestion_def io_defs SessionPostgres_GetSessionByID_def guardedEffect_fail)
  next
    case True
    obtain db1 where u: "QuestionPostgres_SkipQuestion qid db = (db1, Inr ())"
      by (simp add: QuestionPostgres_SkipQuestion_def)
    have u1: "sessions db1 = sessions db" "clock db1 = clock db"
      using u by (auto simp: QuestionPostgres_SkipQuestion_def)
    have u2: "iteration_questions db1 = iteration_questions (fst (QuestionPostgres_SkipQuestion qid db))"
      by (simp add: u)
    obtain db' r where run: "SkipSkipedQuestion sid qid db = (db', r)"
      by (cases "SkipSkipedQuestion sid qid db")
    have "iteration_questions db' = iteration_questions db1 \<and> clock db' = clock db
        \<and> (sessions db' = sessions db
         \<or> (\<exists>s'. sessions db' = (sessions db)(sid \<mapsto> s')
               \<and> (s_Status s' \<in> {SessionStatusValidating} \<or> s_Status s' = s_Status s)))"
      using run Some True u1
      by (auto simp: SkipSkipedQuestion_def io_defs u session_repo_defs
          QuestionPostgres_GetUnansweredQuestions_def
          split: if_splits sum.splits option.splits)
    then show ?thesis
      unfolding run u2 using Some True
      by (intro guardedEffectI [of db sid s]) (auto intro: questionsEffect_skip)
  qed
qed


lemma LoadSessionQuestions_effect:
  "guardedEffect emp sid {SessionStatusInterviewInfo} {SessionStatusWaitingForAnswers} db
     (LoadSessionQuestions llm sid db)"
proof (cases "sessions db sid")
  case None
  then show ?thesis
    by (simp add: LoadSessionQuestions_def io_defs SessionPostgres_GetSessionByID_def guardedEffect_fail)
next
  case (Some s)
  show ?thesis
  proof (cases "s_Status s \<in> {SessionStatusInterviewInfo}")
    case False
    with Some show ?thesis
      by (auto simp: LoadSessionQuestions_def io_defs SessionPostgres_GetSessionByID_def guardedEffect_fail)
  next
    case True
    let ?dbL = "db\<lparr>llm_calls := Suc (llm_calls db)\<rparr>"
    obtain db' r where run: "LoadSessionQuestions llm sid db = (db', r)"
      by (cases "LoadSessionQuestions llm sid db")
    have main: "questionsEffect emp db db' \<and> clock db' = clock db
        \<and> (sessions db' = sessions db
         \<or> (\<exists>s'. sessions db' = (sessions db)(sid \<mapsto> s')
               \<and> (s_Status s' \<in> {SessionStatusWaitingForAnswers} \<or> s_Status s' = s_Status s)))"
    proof (cases llm)
      case (Inl e)
      with run Some True show ?thesis
        by (auto simp: LoadSessionQuestions_def io_defs session_repo_defs
            generateQuestionsBlocks_def LLMConnector_call_def
            intro!: questionsEffect_same split: if_splits sum.splits option.splits)
    next
      case (Inr blocks)
      obtain db2 r2 where sv: "saveQuestionsToDatabase sid blocks ?dbL = (db2, r2)"
        by (cases "saveQuestionsToDatabase sid blocks ?dbL")
      note f = saveQuestionsToDatabase_frame [OF sv]
      from f obtain rows where
        rows: "iteration_questions db2 = iteration_questions db @ rows"
          "\<forall>q \<in> set rows. q_Status q = AnswerStatusUnanswered \<and> q_Answer q = None"
        by auto
      have q2: "questionsEffect emp db db2"
        using rows by (rule questionsEffect_append)
      have "(iteration_questions db' = iteration_questions db
              \<or> iteration_questions db' = iteration_questions db2) \<and> clock db' = clock db
        \<and> (sessions db' = sessions db
         \<or> (\<exists>s'. sessions db' = (sessions db)(sid \<mapsto> s')
               \<and> (s_Status s' \<in> {SessionStatusWaitingForAnswers} \<or> s_Status s' = s_Status s)))"
        using run Some True Inr f
        by (auto simp: LoadSessionQuestions_def io_defs session_repo_defs sv
            generateQuestionsBlocks_def LLMConnector_call_def
            split: if_splits sum.splits option.splits)
      then show ?thesis
        using q2 rows by (auto simp: questionsEffect_def)
    qed
    then show ?thesis
      unfolding run using Some True
      by (intro guardedEffectI [of db sid s]) auto
  qed
qed


lemma ValidateAnswers_effect:
  "guardedEffect emp sid {SessionStatusValidating, SessionStatusWaitingForAnswers}
     {SessionStatusGeneratingRequirements, SessionStatusWaitingForAnswers} db
     (ValidateAnswers llm sid db)"
proof (cases "sessions db sid")
  case None
  then show ?thesis
    by (simp add: ValidateAnswers_def io_defs SessionPostgres_GetSessionByID_def guardedEffect_fail)
next
  case (Some s)
  show ?thesis
  proof (cases "s_Status s \<in> {SessionStatusValidating, SessionStatusWaitingForAnswers}")
    case False
    with Some show ?thesis
      by (auto simp: ValidateAnswers_def io_defs SessionPostgres_GetSessionByID_def guardedEffect_fail)
  next
    case True
    obtain r1 where c: "collectAllAnswers sid db = (db, r1)"
      using collectAllAnswers_db [of sid db] by (cases "collectAllAnswers sid db") simp
    obtain db' r where run: "ValidateAnswers llm sid db = (db', r)"
      by (cases "ValidateAnswers llm sid db")
    have "((\<exists>rows. iteration_questions db' = iteration_questions db @ rows
              \<and> (\<forall>q \<in> set rows. q_Status q = AnswerStatusUnanswered \<and> q_Answer q = None)))
        \<and> clock db' = clock db
        \<and> (sessions db' = sessions db
         \<or> (\<exists>s'. sessions db' = (sessions db)(sid \<mapsto> s')
               \<and> (s_Status s' \<in> {SessionStatusGeneratingRequirements,
                                    SessionStatusWaitingForAnswers} \<or> s_Status s' = s_Status s)))"
      using run Some True
      by (auto simp: ValidateAnswers_def io_defs session_repo_defs c LLMConnector_call_def
          IterationPostgres_ListIterationsBySession_def 
          split: if_splits sum.splits option.splits prod.splits list.splits
          dest!: saveQuestionsToDatabase_frame)
    then show ?thesis
      unfolding run using Some True
      by (intro guardedEffectI [of db sid s]) (auto simp: questionsEffect_def)
  qed
qed


lemma ValidateDraftMessages_effect:
  "guardedEffect emp sid {SessionStatusDraftCollecting, SessionStatusWaitingForAnswers, SessionStatusValidating}
     {SessionStatusValidating, SessionStatusGeneratingRequirements, SessionStatusWaitingForAnswers} db
     (ValidateDraftMessages llm sid db)"
proof (cases "sessions db sid")
  case None
  then show ?thesis
    by (simp add: ValidateDraftMessages_def io_defs SessionPostgres_GetSessionByID_def guardedEffect_fail)
next
  case (Some s)
  show ?thesis
  proof (cases "s_Status s \<in> {SessionStatusDraftCollecting, SessionStatusWaitingForAnswers, SessionStatusValidating}")
    case False
    with Some show ?thesis
      by (auto simp: ValidateDraftMessages_def io_defs SessionPostgres_GetSessionByID_def guardedEffect_fail)
  next
    case True
    obtain r1 where c: "collectAllAnswers sid db = (db, r1)"
      using collectAllAnswers_db [of sid db] by (cases "collectAllAnswers sid db") simp
    obtain db' r where run: "ValidateDraftMessages llm sid db = (db', r)"
      by (cases "ValidateDraftMessages llm sid db")
    have "((\<exists>rows. iteration_questions db' = iteration_questions db @ rows
              \<and> (\<forall>q \<in> set rows. q_Status q = AnswerStatusUnanswered \<and> q_Answer q = None)))
        \<and> clock db' = clock db
        \<and> (sessions db' = sessions db
         \<or> (\<exists>s'. sessions db' = (sessions db)(sid \<mapsto> s')
               \<and> (s_Status s' \<in> {SessionStatusValidating, SessionStatusGeneratingRequirements,
                                    SessionStatusWaitingForAnswers} \<or> s_Status s' = s_Status s)))"
      using run Some True
      by (auto simp: ValidateDraftMessages_def io_defs session_repo_defs c LLMConnector_call_def
          IterationPostgres_ListIterationsBySession_def SessionMessagePostgres_GetSessionMessages_def QuestionPostgres_ListQuestionsBySession_def
          split: if_splits sum.splits option.splits prod.splits list.splits
          dest!: saveQuestionsToDatabase_frame)
    then show ?thesis
      unfolding run using Some True
      by (intro guardedEffectI [of db sid s]) (auto simp: questionsEffect_def)
  qed
qed

lemma StartSession_effect:
  assumes "StartSession db = (db', r)"
  shows "statusStep None {} {} {SessionStatusAskUserGoal} db db'
       \<and> questionsEffect emp db db' \<and> clock db' = clock db"
  using assms
  by (auto simp: StartSession_def io_defs uuid_New_def SessionPostgres_CreateSession_def
      statusStep_def statusOf_def intro!: questionsEffect_same
      split: if_splits option.splits)

lemma StartHTTPSession_effect:
  assumes "StartHTTPSession rag llm req db = (db', r)"
  shows "statusStep None {} {} {SessionStatusWaitingForAnswers} db db'
       \<and> questionsEffect emp db db' \<and> clock db' = clock db"
proof -
  have "(\<exists>rows. iteration_questions db' = iteration_questions db @ rows
              \<and> (\<forall>q \<in> set rows. q_Status q = AnswerStatusUnanswered \<and> q_Answer q = None))
        \<and> clock db' = clock db
        \<and> (sessions db' = sessions db
         \<or> (\<exists>s'. sessions db (uuid_next db) = None
               \<and> sessions db' = (sessions db)(uuid_next db \<mapsto> s')
               \<and> s_Status s' = SessionStatusWaitingForAnswers))"
    using assms
    by (auto simp: StartHTTPSession_def io_defs uuid_New_def SessionPostgres_CreateFilledSession_def
        ProjectPostgres_Get_def generateQuestionsBlocks_def LLMConnector_call_def
        split: if_splits sum.splits option.splits prod.splits list.splits
        dest!: saveQuestionsToDatabase_frame)
  then show ?thesis
    by (auto simp: statusStep_def statusOf_def questionsEffect_def split: option.splits)
qed

lemma run_effect:
  assumes "run op db = (db', e)"
  shows "statusStep (target op) (required op) (writes op) (initialStatus op) db db'
       \<and> questionsEffect (answerText op = Some []) db db'
       \<and> clock db' = clock db
       \<and> (\<forall>x st. target op = Some x \<longrightarrow> statusOf db x = Some st \<longrightarrow> e = None \<longrightarrow> st \<in> required op)"
proof (cases op)
  case OpStartSession
  then show ?thesis
    using assms StartSession_effect [of db db' _ False]
    by (cases "StartSession db") (auto simp: outcome_def)
next
  case (OpStartHTTPSession rag llm req)
  then show ?thesis
    using assms StartHTTPSession_effect [of rag llm req db db' _ False]
    by (cases "StartHTTPSession rag llm req db") (auto simp: outcome_def)
next
  case (OpSubmitTextUserGoal sid goal)
  then show ?thesis
    using assms SubmitTextUserGoal_effect [where emp = "False" and sid = sid and goal = goal and db = db]
    by (auto simp: guardedEffect_def outcome_def split: sum.splits)
next
  case (OpSubmitAudioUserGoal asr sid)
  then show ?thesis
    using assms SubmitAudioUserGoal_effect [where emp = "False" and asr = asr and sid = sid and db = db]
    by (auto simp: guardedEffect_def outcome_def split: sum.splits)
next
  case (OpSubmitRAGProjectContext rag sid pid)
  then show ?thesis
    using assms SubmitRAGProjectContext_effect [where emp = "False" and rag = rag and sid = sid and pid = pid and db = db]
    by (auto simp: guardedEffect_def outcome_def split: sum.splits)
next
  case (OpSubmitTextUserProjectContext sid qs as)
  then show ?thesis
    using assms SubmitTextUserProjectContext_effect [where emp = "False" and sid = sid and qs = qs and as = as and db = db]
    by (auto simp: guardedEffect_def outcome_def split: sum.splits)
next
  case (OpSubmitAudioUserProjectContext asr sid qs)
  then show ?thesis
    using assms SubmitAudioUserProjectContext_effect [where emp = "False" and asr = asr and sid = sid and qs = qs and db = db]
    by (auto simp: guardedEffect_def outcome_def split: sum.splits)
next
  case (OpSetSessionType sid ty)
  then show ?thesis
    using assms SetSessionType_effect [where emp = "False" and sid = sid and ty = ty and db = db]
    by (auto simp: guardedEffect_def outcome_def split: sum.splits)
next
  case (OpStartManualContext sid)
  then show ?thesis
    using assms StartManualContext_effect [where emp = "False" and sid = sid and db = db]
    by (auto simp: guardedEffect_def outcome_def split: sum.splits)
next
  case (OpRestartModeSelection sid)
  then show ?thesis
    using assms RestartModeSelection_effect [where emp = "False" and sid = sid and db = db]
    by (auto simp: guardedEffect_def outcome_def split: sum.splits)
next
  case (OpRestartProjectSelection sid)
  then show ?thesis
    using assms RestartProjectSelection_effect [where emp = "False" and sid = sid and db = db]
    by (auto simp: guardedEffect_def outcome_def split: sum.splits)
next
  case (OpStartDraftCollecting sid)
  then show ?thesis
    using assms StartDraftCollecting_effect [where emp = "False" and sid = sid and db = db]
    by (auto simp: guardedEffect_def outcome_def split: sum.splits)
next
  case (OpLoadSessionQuestions llm sid)
  then show ?thesis
    using assms LoadSessionQuestions_effect [where emp = "False" and llm = llm and sid = sid and db = db]
    by (auto simp: guardedEffect_def outcome_def split: sum.splits)
next
  case (OpSkipAnswer sid qid)
  then show ?thesis
    using assms SkipAnswer_effect [where emp = "False" and sid = sid and qid = qid and db = db]
    by (auto simp: guardedEffect_def outcome_def split: sum.splits)
next
  case (OpSubmitTextAnswer sid qid a)
  then show ?thesis
    using assms SubmitTextAnswer_effect [where sid = sid and qid = qid and a = a and db = db]
    by (auto simp: guardedEffect_def outcome_def split: sum.splits)
next
  case (OpSubmitAudioAnswer asr sid qid)
  then show ?thesis
    using assms SubmitAudioAnswer_effect [where asr = asr and sid = sid and qid = qid and db = db]
    by (auto simp: guardedEffect_def outcome_def split: sum.splits)
next
  case (OpSubmitHTTPAudioAnswer audioFile asr sid qid)
  then show ?thesis
    using assms SubmitHTTPAudioAnswer_effect [where audioFile = audioFile and asr = asr and sid = sid and qid = qid and db = db]
    by (auto simp: guardedEffect_def outcome_def split: sum.splits)
next
  case (OpSkipSkipedQuestion sid qid)
  then show ?thesis
    using assms SkipSkipedQuestion_effect [where emp = "False" and sid = sid and qid = qid and db = db]
    by (auto simp: guardedEffect_def outcome_def split: sum.splits)
next
  case (OpSetWaitingForAnswersStatus sid)
  then show ?thesis
    using assms SetWaitingForAnswersStatus_effect [where emp = "False" and sid = sid and db = db]
    by (auto simp: guardedEffect_def outcome_def split: sum.splits)
next
  case (OpValidateAnswers llm sid)
  then show ?thesis
    using assms ValidateAnswers_effect [where emp = "False" and llm = llm and sid = sid and db = db]
    by (auto simp: guardedEffect_def outcome_def split: sum.splits)
next
  case (OpGenerateSummary llm sid)
  then show ?thesis
    using assms GenerateSummary_effect [where emp = "False" and llm = llm and sid = sid and db = db]
    by (auto simp: guardedEffect_def outcome_def split: sum.splits)
next
  case (OpCancelSession sid)
  then show ?thesis
    using assms CancelSession_effect [where emp = "False" and sid = sid and db = db]
    by (auto simp: guardedEffect_def outcome_def split: sum.splits)
next
  case (OpUpdateSessionStatus sid st)
  then show ?thesis
    using assms UpdateSessionStatus_effect [where emp = "False" and sid = sid and st = st and db = db]
    by (auto simp: guardedEffect_def outcome_def split: sum.splits)
next
  case (OpAddDraftMessage sid t)
  then show ?thesis
    using assms AddDraftMessage_effect [where emp = "False" and sid = sid and t = t and db = db]
    by (auto simp: guardedEffect_def outcome_def split: sum.splits)
next
  case (OpAddAudioDraftMessage asr sid)
  then show ?thesis
    using assms AddAudioDraftMessage_effect [where emp = "False" and asr = asr and sid = sid and db = db]
    by (auto simp: guardedEffect_def outcome_def split: sum.splits)
next
  case (OpValidateDraftMessages llm sid)
  then show ?thesis
    using assms ValidateDraftMessages_effect [where emp = "False" and llm = llm and sid = sid and db = db]
    by (auto simp: guardedEffect_def outcome_def split: sum.splits)
next
  case (OpGenerateDraftSummary llm sid)
  then show ?thesis
    using assms GenerateDraftSummary_effect [where emp = "False" and llm = llm and sid = sid and db = db]
    by (auto simp: guardedEffect_def outcome_def split: sum.splits)
qed

section \<open>The operations on example stores\<close>




section \<open>The status write (C6)\<close>




section \<open>Saving generated blocks (C7)\<close>

text \<open>
  The inner loop creates one row per question, numbered from \<open>qIdx + 1\<close>, all unanswered
  and without an answer, as long as the numbers stay in the range of the INT column.
\<close>

lemma saveBlockQuestions_effect:
  assumes "0 \<le> qIdx" and "qIdx + int (length qs) \<le> 2147483647"
  shows "\<exists>rows gos.
           saveBlockQuestions iid qIdx qs acc db
             = (db\<lparr>iteration_questions := iteration_questions db @ rows,
                   uuid_next := uuid_next db + length qs\<rparr>, Inr (acc @ gos))
           \<and> length gos = length qs
           \<and> map q_QuestionNumber rows = map (\<lambda>k. qIdx + 1 + int k) [0..<length qs]
           \<and> map q_Question rows = map lq_Text qs
           \<and> map q_Explanation rows = map lq_Explanation qs
           \<and> (\<forall>q \<in> set rows. q_Status q = AnswerStatusUnanswered \<and> q_Answer q = None
                  \<and> q_AnsweredAt q = None \<and> q_IterationID q = iid)"
  using assms
proof (induction qs arbitrary: qIdx acc db)
  case Nil
  show ?case by (rule exI [of _ "[]"], rule exI [of _ "[]"]) simp
next
  case (Cons q rest)
  let ?db1 = "db\<lparr>uuid_next := Suc (uuid_next db)\<rparr>"
  let ?question = "\<lparr>q_ID = uuid_next db, q_IterationID = iid, q_QuestionNumber = qIdx + 1,
                      q_Status = AnswerStatusUnanswered, q_Question = lq_Text q,
                      q_Explanation = lq_Explanation q, q_Answer = None, q_CreatedAt = 0,
                      q_AnsweredAt = None\<rparr>"
  let ?row = "?question\<lparr>q_CreatedAt := clock db\<rparr>"
  let ?db2 = "?db1\<lparr>iteration_questions := iteration_questions db @ [?row]\<rparr>"
  have rng: "int32 (qIdx + 1) = qIdx + 1"
    using Cons.prems by (intro int32_id) simp_all
  from Cons.prems have "0 \<le> qIdx + 1" "qIdx + 1 + int (length rest) \<le> 2147483647" by simp_all
  from Cons.IH [OF this, of "acc @ [?question]" ?db2]
  obtain rows gos where
    ih: "saveBlockQuestions iid (qIdx + 1) rest (acc @ [?question]) ?db2
          = (?db2\<lparr>iteration_questions := iteration_questions ?db2 @ rows,
                   uuid_next := uuid_next ?db2 + length rest\<rparr>, Inr ((acc @ [?question]) @ gos))"
    and len: "length gos = length rest"
    and nums: "map q_QuestionNumber rows = map (\<lambda>k. qIdx + 1 + 1 + int k) [0..<length rest]"
    and qtxt: "map q_Question rows = map lq_Text rest"
    and expl: "map q_Explanation rows = map lq_Explanation rest"
    and st: "\<forall>q \<in> set rows. q_Status q = AnswerStatusUnanswered \<and> q_Answer q = None
                  \<and> q_AnsweredAt q = None \<and> q_IterationID q = iid"
    by blast
  have step: "saveBlockQuestions iid qIdx (q # rest) acc db
          = saveBlockQuestions iid (qIdx + 1) rest (acc @ [?question]) ?db2"
    by (simp add: uuid_New_def QuestionPostgres_CreateQuestion_def rng Let_def)
  show ?case
    apply (rule exI [of _ "?row # rows"], rule exI [of _ "?question # gos"])
    unfolding step ih
    using len nums qtxt expl st
    by (simp add: map_upt_Suc add.assoc del: upt_Suc saveBlockQuestions.simps)
qed


lemma CreateIteration_fresh:
  assumes "sessions db sid \<noteq> None"
    and "\<forall>r \<in> set (session_iterations db). it_SessionID r = sid \<longrightarrow> it_IterationNumber r < n"
    and "- 2147483648 \<le> n" and "n \<le> 2147483647"
  shows "IterationPostgres_CreateIteration
           \<lparr>it_ID = i, it_SessionID = sid, it_IterationNumber = n, it_Title = t, it_CreatedAt = c\<rparr> db
         = (db\<lparr>session_iterations := session_iterations db
                  @ [\<lparr>it_ID = i, it_SessionID = sid, it_IterationNumber = n, it_Title = t,
                      it_CreatedAt = clock db\<rparr>]\<rparr>,
            Inr \<lparr>it_ID = i, it_SessionID = sid, it_IterationNumber = n, it_Title = t,
                 it_CreatedAt = clock db\<rparr>)"
  using assms by (auto simp: IterationPostgres_CreateIteration_def int32_id Let_def)

lemma saveBlocks_effect:
  assumes "sessions db sid \<noteq> None"
    and "\<forall>r \<in> set (session_iterations db). it_SessionID r = sid \<longrightarrow> it_IterationNumber r \<le> maxN + idx"
    and "- 2147483648 \<le> maxN + idx + 1"
    and "maxN + idx + int (length blocks) \<le> 2147483647"
    and "\<forall>b \<in> set blocks. int (length (qb_Questions b)) \<le> 2147483647"
  shows "\<exists>db' its qs dtos.
           saveBlocks sid maxN idx blocks acc db = (db', Inr (acc @ dtos))
           \<and> session_iterations db' = session_iterations db @ its
           \<and> iteration_questions db' = iteration_questions db @ qs
           \<and> sessions db' = sessions db
           \<and> map it_IterationNumber its = map (\<lambda>k. maxN + idx + 1 + int k) [0..<length blocks]
           \<and> map it_Title its = map qb_Title blocks
           \<and> (\<forall>it \<in> set its. it_SessionID it = sid)
           \<and> map q_QuestionNumber qs
               = concat (map (\<lambda>b. map (\<lambda>k. 1 + int k) [0..<length (qb_Questions b)]) blocks)
           \<and> map q_IterationID qs
               = concat (map (\<lambda>(it, b). replicate (length (qb_Questions b)) (it_ID it)) (zip its blocks))
           \<and> (\<forall>q \<in> set qs. q_Status q = AnswerStatusUnanswered \<and> q_Answer q = None)
           \<and> map iwq_IterationNumber dtos = map it_IterationNumber its
           \<and> map iwq_IterationID dtos = map it_ID its"
  using assms
proof (induction blocks arbitrary: idx acc db)
  case Nil
  show ?case
    by (rule exI [of _ db], rule exI [of _ "[]"], rule exI [of _ "[]"], rule exI [of _ "[]"]) simp
next
  case (Cons block rest)
  let ?n = "maxN + idx + 1"
  let ?db1 = "db\<lparr>uuid_next := Suc (uuid_next db)\<rparr>"
  let ?saved = "\<lparr>it_ID = uuid_next db, it_SessionID = sid, it_IterationNumber = ?n,
                  it_Title = qb_Title block, it_CreatedAt = clock db\<rparr>"
  let ?db2 = "?db1\<lparr>session_iterations := session_iterations db @ [?saved]\<rparr>"
  have create: "IterationPostgres_CreateIteration
           \<lparr>it_ID = uuid_next db, it_SessionID = sid, it_IterationNumber = ?n,
            it_Title = qb_Title block, it_CreatedAt = 0\<rparr> ?db1 = (?db2, Inr ?saved)"
    using Cons.prems by (subst CreateIteration_fresh) auto
  from Cons.prems have "(0::int) \<le> 0" "0 + int (length (qb_Questions block)) \<le> 2147483647"
    by simp_all
  from saveBlockQuestions_effect [OF this, of "uuid_next db" "[]" ?db2]
  obtain rows gos where
    inner: "saveBlockQuestions (uuid_next db) 0 (qb_Questions block) [] ?db2
              = (?db2\<lparr>iteration_questions := iteration_questions ?db2 @ rows,
                      uuid_next := uuid_next ?db2 + length (qb_Questions block)\<rparr>, Inr ([] @ gos))"
    and nums: "map q_QuestionNumber rows = map (\<lambda>k. 0 + 1 + int k) [0..<length (qb_Questions block)]"
    and rst: "\<forall>q \<in> set rows. q_Status q = AnswerStatusUnanswered \<and> q_Answer q = None
                  \<and> q_AnsweredAt q = None \<and> q_IterationID q = uuid_next db"
    by blast
  let ?db3 = "?db2\<lparr>iteration_questions := iteration_questions ?db2 @ rows,
                      uuid_next := uuid_next ?db2 + length (qb_Questions block)\<rparr>"
  have p1: "sessions ?db3 sid \<noteq> None" using Cons.prems by simp
  have p2: "\<forall>r \<in> set (session_iterations ?db3). it_SessionID r = sid
               \<longrightarrow> it_IterationNumber r \<le> maxN + (idx + 1)"
    using Cons.prems(2) by auto
  have p3: "- 2147483648 \<le> maxN + (idx + 1) + 1" using Cons.prems by simp
  have p4: "maxN + (idx + 1) + int (length rest) \<le> 2147483647" using Cons.prems by simp
  have p5: "\<forall>b \<in> set rest. int (length (qb_Questions b)) \<le> 2147483647" using Cons.prems by simp
  from Cons.IH [OF p1 p2 p3 p4 p5, of "acc @ [questionsToIterationDTO ?saved gos]"]
  obtain db' its qs dtos where
    ih: "saveBlocks sid maxN (idx + 1) rest (acc @ [questionsToIterationDTO ?saved gos]) ?db3
           = (db', Inr ((acc @ [questionsToIterationDTO ?saved gos]) @ dtos))"
    and i1: "session_iterations db' = session_iterations ?db3 @ its"
    and i2: "iteration_questions db' = iteration_questions ?db3 @ qs"
    and i3: "sessions db' = sessions ?db3"
    and i4: "map it_IterationNumber its = map (\<lambda>k. maxN + (idx + 1) + 1 + int k) [0..<length rest]"
    and i5: "map it_Title its = map qb_Title rest"
    and i6: "\<forall>it \<in> set its. it_SessionID it = sid"
    and i7: "map q_QuestionNumber qs
               = concat (map (\<lambda>b. map (\<lambda>k. 1 + int k) [0..<length (qb_Questions b)]) rest)"
    and i8: "map q_IterationID qs
               = concat (map (\<lambda>(it, b). replicate (length (qb_Questions b)) (it_ID it)) (zip its rest))"
    and i9: "\<forall>q \<in> set qs. q_Status q = AnswerStatusUnanswered \<and> q_Answer q = None"
    and i10: "map iwq_IterationNumber dtos = map it_IterationNumber its"
    and i11: "map iwq_IterationID dtos = map it_ID its"
    by blast
  have step: "saveBlocks sid maxN idx (block # rest) acc db
          = saveBlocks sid maxN (idx + 1) rest (acc @ [questionsToIterationDTO ?saved gos]) ?db3"
    using inner by (simp add: uuid_New_def create Let_def)
  have rowsid: "map q_IterationID rows = replicate (length (qb_Questions block)) (uuid_next db)"
  proof -
    have "length rows = length (qb_Questions block)"
      using arg_cong [OF nums, of length] by simp
    moreover have "map q_IterationID rows = map (\<lambda>_. uuid_next db) rows"
      using rst by (intro map_cong) auto
    ultimately show ?thesis by (simp add: map_replicate_const)
  qed
  show ?case
    apply (rule exI [of _ db'], rule exI [of _ "?saved # its"], rule exI [of _ "rows @ qs"],
        rule exI [of _ "questionsToIterationDTO ?saved gos # dtos"])
    unfolding step ih
    using i1 i2 i3 i4 i5 i6 i7 i8 i9 i10 i11 nums rst rowsid
    by (auto simp add: map_upt_Suc add.assoc questionsToIterationDTO_def
        simp del: upt_Suc saveBlocks.simps)
qed


lemma storedMax_ge:
  "r \<in> set (session_iterations db) \<Longrightarrow> it_SessionID r = sid
     \<Longrightarrow> it_IterationNumber r \<le> storedMaxIterationNumber db sid"
  by (auto simp: storedMaxIterationNumber_def Let_def filter_empty_conv intro!: Max_ge)

lemma storedMax_append:
  assumes "map it_IterationNumber its = map (\<lambda>k. storedMaxIterationNumber db sid + 1 + int k) [0..<n]"
    and "\<forall>it \<in> set its. it_SessionID it = sid"
    and "session_iterations db' = session_iterations db @ its"
  shows "storedMaxIterationNumber db' sid = storedMaxIterationNumber db sid + int n"
proof (cases n)
  case 0
  with assms show ?thesis by (simp add: storedMaxIterationNumber_def)
next
  case (Suc k)
  let ?m = "storedMaxIterationNumber db sid"
  let ?old = "filter (\<lambda>r. it_SessionID r = sid) (session_iterations db)"
  have len: "length its = n" using arg_cong [OF assms(1), of length] by simp
  have flt: "filter (\<lambda>r. it_SessionID r = sid) (session_iterations db') = ?old @ its"
    using assms(2,3) by (simp add: filter_id_conv)
  have newset: "it_IterationNumber ` set its = (\<lambda>k. ?m + 1 + int k) ` {0..<n}"
    using arg_cong [OF assms(1), of set] by simp
  have "Max (it_IterationNumber ` set ?old \<union> it_IterationNumber ` set its) = ?m + int n"
  proof (rule Max_eqI)
    show "finite (it_IterationNumber ` set ?old \<union> it_IterationNumber ` set its)" by simp
    show "?m + int n \<in> it_IterationNumber ` set ?old \<union> it_IterationNumber ` set its"
      unfolding newset using Suc by (auto intro!: image_eqI [of _ _ k])
    fix y assume "y \<in> it_IterationNumber ` set ?old \<union> it_IterationNumber ` set its"
    then show "y \<le> ?m + int n"
      unfolding newset using storedMax_ge [of _ db sid] by (auto simp: less_Suc_eq_le) force
  qed
  moreover have "its \<noteq> []" using len Suc by auto
  ultimately show ?thesis
    by (simp add: storedMaxIterationNumber_def [of db'] flt Let_def image_Un)
qed

text \<open>
  C7: \<open>saveQuestionsToDatabase\<close> (the specification's saveGeneratedBlocks), called for an
  existing session with numbers that fit the INT columns, succeeds and appends one
  iteration per block, numbered \<open>max + 1, max + 2, ...\<close> where \<open>max\<close> is the largest
  iteration number of the session (0 when it has none), with the titles of the blocks;
  it appends the questions of each block numbered from 1, all \<open>UNANSWERED\<close> and without
  an answer. Consequently every new number is larger than every number the session had,
  the new numbers increase strictly, distinct numbers stay distinct, and the largest
  number has grown by the number of blocks, so that a second call starts above the first.
\<close>

theorem C7_saveQuestionsToDatabase_numbering:
  assumes "sessions db sid \<noteq> None"
    and "- 2147483648 \<le> storedMaxIterationNumber db sid + 1"
    and "storedMaxIterationNumber db sid + int (length blocks) \<le> 2147483647"
    and "\<forall>b \<in> set blocks. int (length (qb_Questions b)) \<le> 2147483647"
  shows "\<exists>db' its qs dtos.
           saveQuestionsToDatabase sid blocks db = (db', Inr dtos)
           \<and> session_iterations db' = session_iterations db @ its
           \<and> iteration_questions db' = iteration_questions db @ qs
           \<and> map it_IterationNumber its
               = map (\<lambda>k. storedMaxIterationNumber db sid + 1 + int k) [0..<length blocks]
           \<and> map it_Title its = map qb_Title blocks
           \<and> (\<forall>it \<in> set its. it_SessionID it = sid)
           \<and> map q_QuestionNumber qs
               = concat (map (\<lambda>b. map (\<lambda>k. 1 + int k) [0..<length (qb_Questions b)]) blocks)
           \<and> map q_IterationID qs
               = concat (map (\<lambda>(it, b). replicate (length (qb_Questions b)) (it_ID it)) (zip its blocks))
           \<and> (\<forall>q \<in> set qs. q_Status q = AnswerStatusUnanswered \<and> q_Answer q = None)
           \<and> map iwq_IterationNumber dtos = map it_IterationNumber its
           \<and> (\<forall>old \<in> set (session_iterations db). \<forall>new \<in> set its.
                  it_SessionID old = sid \<longrightarrow> it_IterationNumber old < it_IterationNumber new)
           \<and> sorted_wrt (<) (map it_IterationNumber its)
           \<and> (distinct (map it_IterationNumber
                          (filter (\<lambda>r. it_SessionID r = sid) (session_iterations db)))
                \<longrightarrow> distinct (map it_IterationNumber
                          (filter (\<lambda>r. it_SessionID r = sid) (session_iterations db'))))
           \<and> sessions db' = sessions db
           \<and> storedMaxIterationNumber db' sid = storedMaxIterationNumber db sid + int (length blocks)"
proof -
  let ?m = "storedMaxIterationNumber db sid"
  have le: "\<forall>r \<in> set (session_iterations db). it_SessionID r = sid \<longrightarrow> it_IterationNumber r \<le> ?m + 0"
    using storedMax_ge by simp
  from saveBlocks_effect [OF assms(1) le, of blocks "[]"] assms(2-4)
  obtain db' its qs dtos where
    run: "saveBlocks sid ?m 0 blocks [] db = (db', Inr ([] @ dtos))"
    and i1: "session_iterations db' = session_iterations db @ its"
    and i2: "iteration_questions db' = iteration_questions db @ qs"
    and i3: "sessions db' = sessions db"
    and i4: "map it_IterationNumber its = map (\<lambda>k. ?m + 0 + 1 + int k) [0..<length blocks]"
    and i5: "map it_Title its = map qb_Title blocks"
    and i6: "\<forall>it \<in> set its. it_SessionID it = sid"
    and i7: "map q_QuestionNumber qs
               = concat (map (\<lambda>b. map (\<lambda>k. 1 + int k) [0..<length (qb_Questions b)]) blocks)"
    and i8: "map q_IterationID qs
               = concat (map (\<lambda>(it, b). replicate (length (qb_Questions b)) (it_ID it)) (zip its blocks))"
    and i9: "\<forall>q \<in> set qs. q_Status q = AnswerStatusUnanswered \<and> q_Answer q = None"
    and i10: "map iwq_IterationNumber dtos = map it_IterationNumber its"
    by auto
  have nums: "map it_IterationNumber its = map (\<lambda>k. ?m + 1 + int k) [0..<length blocks]"
    using i4 by simp
  have call: "saveQuestionsToDatabase sid blocks db = (db', Inr dtos)"
    using run by (simp add: saveQuestionsToDatabase_def IterationPostgres_GetMaxIterationNumber_def)
  have newnum: "\<forall>new \<in> set its. ?m < it_IterationNumber new"
  proof
    fix new assume "new \<in> set its"
    then have "it_IterationNumber new \<in> set (map it_IterationNumber its)" by simp
    then show "?m < it_IterationNumber new" unfolding nums by auto
  qed
  have above: "\<forall>old \<in> set (session_iterations db). \<forall>new \<in> set its.
                  it_SessionID old = sid \<longrightarrow> it_IterationNumber old < it_IterationNumber new"
    using newnum storedMax_ge [of _ db sid] by fastforce
  have incr: "sorted_wrt (<) (map it_IterationNumber its)"
    unfolding nums by (simp add: sorted_wrt_map sorted_wrt_iff_nth_less)
  have flt: "filter (\<lambda>r. it_SessionID r = sid) (session_iterations db')
               = filter (\<lambda>r. it_SessionID r = sid) (session_iterations db) @ its"
    using i1 i6 by (simp add: filter_id_conv)
  have dist: "distinct (map it_IterationNumber
                          (filter (\<lambda>r. it_SessionID r = sid) (session_iterations db)))
                \<longrightarrow> distinct (map it_IterationNumber
                          (filter (\<lambda>r. it_SessionID r = sid) (session_iterations db')))"
  proof
    let ?old = "filter (\<lambda>r. it_SessionID r = sid) (session_iterations db)"
    assume d1: "distinct (map it_IterationNumber ?old)"
    have d2: "distinct (map it_IterationNumber its)"
      using incr strict_sorted_iff by blast
    have disj: "set (map it_IterationNumber ?old) \<inter> set (map it_IterationNumber its) = {}"
      using above by fastforce
    show "distinct (map it_IterationNumber
                          (filter (\<lambda>r. it_SessionID r = sid) (session_iterations db')))"
      unfolding flt map_append distinct_append using d1 d2 disj by blast
  qed
  have mx: "storedMaxIterationNumber db' sid = ?m + int (length blocks)"
    by (rule storedMax_append [OF nums i6 i1])
  show ?thesis
    using call i1 i2 nums i5 i6 i7 i8 i9 i10 above incr dist i3 mx by blast
qed

theorem C7_saveQuestionsToDatabase_numbering_witness:
  "sessions (interviewDB SessionStatusInterviewInfo AnswerStatusUnanswered None) 1 \<noteq> None
   \<and> storedMaxIterationNumber (interviewDB SessionStatusInterviewInfo AnswerStatusUnanswered None) 1 = 1
   \<and> map (\<lambda>b. length (qb_Questions b)) exampleBlocks = [2, 1]
   \<and> (\<exists>db' dtos.
         saveQuestionsToDatabase 1 exampleBlocks
           (interviewDB SessionStatusInterviewInfo AnswerStatusUnanswered None) = (db', Inr dtos)
         \<and> map it_IterationNumber (session_iterations db') = [1, 2, 3]
         \<and> map it_Title (session_iterations db') = [''Block 1'', ''Scope'', ''Users'']
         \<and> map q_QuestionNumber (iteration_questions db') = [1, 1, 2, 1]
         \<and> map iwq_IterationNumber dtos = [2, 3]
         \<and> storedMaxIterationNumber db' 1 = 3)"
proof -
  let ?db = "interviewDB SessionStatusInterviewInfo AnswerStatusUnanswered None"
  have h1: "sessions ?db 1 \<noteq> None"
    by (simp add: interviewDB_def oneSessionDB_def emptyDB_def)
  have m: "storedMaxIterationNumber ?db 1 = 1"
    by (simp add: storedMaxIterationNumber_def interviewDB_def oneSessionDB_def emptyDB_def
        exampleIteration_def)
  have h2: "- 2147483648 \<le> storedMaxIterationNumber ?db 1 + 1" unfolding m by simp
  have h3: "storedMaxIterationNumber ?db 1 + int (length exampleBlocks) \<le> 2147483647"
    unfolding m by (simp add: exampleBlocks_def)
  have h4: "\<forall>b \<in> set exampleBlocks. int (length (qb_Questions b)) \<le> 2147483647"
    by (simp add: exampleBlocks_def)
  have its: "session_iterations ?db = [exampleIteration 10 1 1 ''Block 1'']"
    and qs: "iteration_questions ?db = [exampleQuestion 20 10 1 AnswerStatusUnanswered None]"
    by (simp_all add: interviewDB_def oneSessionDB_def emptyDB_def)
  have up: "[0..<length exampleBlocks] = [0, 1]"
    by (simp add: exampleBlocks_def upt_rec)
  have h5: "map (\<lambda>b. length (qb_Questions b)) exampleBlocks = [2, 1]"
    by (simp add: exampleBlocks_def)
  from C7_saveQuestionsToDatabase_numbering [OF h1 h2 h3 h4]
  show ?thesis
    using h1 m h5
    by (auto simp: its qs up exampleIteration_def exampleQuestion_def exampleBlocks_def upt_rec)
qed

section \<open>Status transitions (C1)\<close>

text \<open>
  C1, the claim as stated: no operation moves a session out of a terminal status, and no
  operation succeeds in a status outside its requirement set. It fails on the code:
  \<open>SetWaitingForAnswersStatus\<close>, which the chat handler calls to replay skipped questions
  after a result exists, tests no status; called for a session in \<open>DONE\<close> it succeeds and
  the session is in \<open>WAITING_FOR_ANSWERS\<close>.
\<close>

theorem C1_terminal_status_counterexample:
  "run (OpSetWaitingForAnswersStatus 1) (oneSessionDB SessionStatusDone)
     = ((oneSessionDB SessionStatusDone)
          \<lparr>sessions := [1 \<mapsto> (exampleSession 1 SessionStatusWaitingForAnswers)\<lparr>s_UpdatedAt := 7\<rparr>]\<rparr>,
        None)
   \<and> statusOf (oneSessionDB SessionStatusDone) 1 = Some SessionStatusDone
   \<and> statusOf (fst (run (OpSetWaitingForAnswersStatus 1) (oneSessionDB SessionStatusDone))) 1
       = Some SessionStatusWaitingForAnswers"
  by (simp add: SetWaitingForAnswersStatus_def io_defs session_repo_defs outcome_def statusOf_def
      oneSessionDB_def emptyDB_def exampleSession_def)

text \<open>
  C1, amended: one run of an engine operation leaves the status of every session as it
  was, except that it may move the session it is called for from a status of the
  operation's requirement set (\<open>required\<close>) to a status the operation writes (\<open>writes\<close>);
  a session that appears has the initial status of the operation that created it; an
  operation that succeeds was called in a status of its requirement set. Every operation
  other than \<open>SetWaitingForAnswersStatus\<close> and \<open>UpdateSessionStatus\<close> excludes \<open>DONE\<close> and
  \<open>CANCELED\<close> from its requirement set, so it never changes the status of a session that
  is done or canceled. These two test no status: called for an existing session they
  succeed in every status, terminal ones included, and write their status. (By the tables,
  \<open>RestartModeSelection\<close> and \<open>RestartProjectSelection\<close> move a session back to an earlier
  status, and \<open>CancelSession\<close> moves a session from \<open>ERROR\<close> to \<open>CANCELED\<close>.)
\<close>

theorem C1_status_transitions:
  assumes "run op db = (db', e)"
  shows "(\<forall>x st. statusOf db x = Some st \<longrightarrow>
            (\<exists>st'. statusOf db' x = Some st'
               \<and> (st' = st \<or> target op = Some x \<and> st \<in> required op \<and> st' \<in> writes op)))
       \<and> (\<forall>x. statusOf db x = None \<longrightarrow>
              statusOf db' x = None \<or> (\<exists>st' \<in> initialStatus op. statusOf db' x = Some st'))
       \<and> (\<forall>x st. target op = Some x \<longrightarrow> statusOf db x = Some st \<longrightarrow> e = None
              \<longrightarrow> st \<in> required op)
       \<and> (\<not> unguarded op \<longrightarrow>
              SessionStatusDone \<notin> required op \<and> SessionStatusCanceled \<notin> required op
              \<and> (\<forall>x st. st \<in> {SessionStatusDone, SessionStatusCanceled} \<longrightarrow>
                     statusOf db x = Some st \<longrightarrow> statusOf db' x = Some st))
       \<and> (unguarded op \<longrightarrow>
              required op = UNIV
              \<and> (\<forall>x st. target op = Some x \<longrightarrow> statusOf db x = Some st \<longrightarrow>
                     e = None \<and> (\<exists>st' \<in> writes op. statusOf db' x = Some st')))"
proof -
  note eff = run_effect [OF assms]
  from eff have ss: "statusStep (target op) (required op) (writes op) (initialStatus op) db db'"
    by simp
  have a: "\<exists>st'. statusOf db' x = Some st'
               \<and> (st' = st \<or> target op = Some x \<and> st \<in> required op \<and> st' \<in> writes op)"
    if "statusOf db x = Some st" for x st
  proof -
    from ss have "case statusOf db x of
            Some st \<Rightarrow> (\<exists>st'. statusOf db' x = Some st'
                          \<and> (st' = st \<or> target op = Some x \<and> st \<in> required op \<and> st' \<in> writes op))
          | None \<Rightarrow> statusOf db' x = None \<or> (\<exists>st' \<in> initialStatus op. statusOf db' x = Some st')"
      unfolding statusStep_def by (rule spec)
    with that show ?thesis by simp
  qed
  have b: "statusOf db' x = None \<or> (\<exists>st' \<in> initialStatus op. statusOf db' x = Some st')"
    if "statusOf db x = None" for x
  proof -
    from ss have "case statusOf db x of
            Some st \<Rightarrow> (\<exists>st'. statusOf db' x = Some st'
                          \<and> (st' = st \<or> target op = Some x \<and> st \<in> required op \<and> st' \<in> writes op))
          | None \<Rightarrow> statusOf db' x = None \<or> (\<exists>st' \<in> initialStatus op. statusOf db' x = Some st')"
      unfolding statusStep_def by (rule spec)
    with that show ?thesis by simp
  qed
  have c: "\<forall>x st. target op = Some x \<longrightarrow> statusOf db x = Some st \<longrightarrow> e = None
              \<longrightarrow> st \<in> required op"
    using eff by simp
  have d1: "SessionStatusDone \<notin> required op \<and> SessionStatusCanceled \<notin> required op"
    if "\<not> unguarded op"
    using that by (cases op) simp_all
  have d2: "statusOf db' x = Some st"
    if "\<not> unguarded op" "st \<in> {SessionStatusDone, SessionStatusCanceled}" "statusOf db x = Some st"
    for x st
    using a [OF that(3)] d1 [OF that(1)] that(2) by auto
  have u: "required op = UNIV
              \<and> (\<forall>x st. target op = Some x \<longrightarrow> statusOf db x = Some st \<longrightarrow>
                     e = None \<and> (\<exists>st' \<in> writes op. statusOf db' x = Some st'))"
    if "unguarded op"
  proof (cases op)
    case (OpSetWaitingForAnswersStatus sid)
    with assms show ?thesis
      by (auto simp: SetWaitingForAnswersStatus_def io_defs session_repo_defs outcome_def
          statusOf_def split: option.splits)
  next
    case (OpUpdateSessionStatus sid st)
    with assms show ?thesis
      by (auto simp: SessionUsecase_UpdateSessionStatus_def io_defs session_repo_defs outcome_def
          statusOf_def split: option.splits)
  qed (use that in simp_all)
  show ?thesis
    apply (intro conjI allI impI)
    using a b c d1 d2 u by blast+
qed

theorem C1_status_transitions_witness:
  "run (OpCancelSession 1) (oneSessionDB SessionStatusChooseMode)
     = ((oneSessionDB SessionStatusChooseMode)
          \<lparr>sessions := [1 \<mapsto> (exampleSession 1 SessionStatusCanceled)\<lparr>s_UpdatedAt := 7\<rparr>]\<rparr>,
        None)
   \<and> statusOf (oneSessionDB SessionStatusChooseMode) 1 = Some SessionStatusChooseMode
   \<and> target (OpCancelSession 1) = Some 1
   \<and> \<not> unguarded (OpCancelSession 1)
   \<and> SessionStatusChooseMode \<in> required (OpCancelSession 1)
   \<and> SessionStatusDone \<notin> required (OpCancelSession 1)"
proof -
  have r: "run (OpCancelSession 1) (oneSessionDB SessionStatusChooseMode)
     = ((oneSessionDB SessionStatusChooseMode)
          \<lparr>sessions := [1 \<mapsto> (exampleSession 1 SessionStatusCanceled)\<lparr>s_UpdatedAt := 7\<rparr>]\<rparr>,
        None)"
    by (simp add: CancelSession_def io_defs session_repo_defs outcome_def
        oneSessionDB_def emptyDB_def exampleSession_def)
  have s: "statusOf (oneSessionDB SessionStatusChooseMode) 1 = Some SessionStatusChooseMode"
    by (simp add: statusOf_def oneSessionDB_def emptyDB_def exampleSession_def)
  from C1_status_transitions [OF r] r s show ?thesis
    by simp
qed

section \<open>Question status transitions (C8)\<close>




end
